theory Spec2Isabelle
  imports Complex_Main "HOL-Library.AList" "HOL-Library.Sublist"
begin

section \<open>Python values\<close>

text \<open>
  The scraper keeps every item as a Python dict with string keys. The values that occur
  are \<^verbatim>\<open>None\<close>, strings, floats (the rating) and lists of strings (authors, genres).
  A dict is an association list in insertion order; \<open>AList.update\<close> is
  \<^verbatim>\<open>d[k] = v\<close>: it overwrites in place when the key exists and appends otherwise.

  A string is a sequence of code points below 256. A float is represented by the exact
  decimal value it was parsed from (a rational); rounding to a double is not part of the
  model.
\<close>

datatype pyval =
    PNone
  | PStr string
  | PFloat rat
  | PList "pyval list"
  | PDict "(string \<times> pyval) list"

type_synonym pydict = "(string \<times> pyval) list"

datatype pyerr = KeyError | TypeError | AttributeError | ValueError

definition dict_get :: "pydict \<Rightarrow> string \<Rightarrow> pyval option" where
  "dict_get d k = map_of d k"

definition dict_set :: "pydict \<Rightarrow> string \<Rightarrow> pyval \<Rightarrow> pydict" where
  "dict_set d k v = AList.update k v d"

text \<open>Truth value of a Python object, as \<^verbatim>\<open>if x\<close> and \<^verbatim>\<open>x or y\<close> test it.\<close>

fun truthy :: "pyval \<Rightarrow> bool" where
  "truthy PNone = False"
| "truthy (PStr s) = (s \<noteq> [])"
| "truthy (PFloat r) = (r \<noteq> 0)"
| "truthy (PList vs) = (vs \<noteq> [])"
| "truthy (PDict d) = (d \<noteq> [])"

text \<open>Lists and dicts cannot be members of a Python set: hashing them raises TypeError.\<close>

fun hashable :: "pyval \<Rightarrow> bool" where
  "hashable (PList vs) = False"
| "hashable (PDict d) = False"
| "hashable v = True"

section \<open>Deduplication (main, lines 257-265)\<close>

text \<open>
  \<^verbatim>\<open>
  unique_urls = set()
  unique_manga_list = []
  for manga in manga_list:
      if manga["url"] not in unique_urls:
          unique_urls.add(manga["url"])
          unique_manga_list.append(manga)
  \<close>
  The loop state is the pair of the seen set and the list built so far. Reading a missing
  key raises KeyError, and testing an unhashable value against the set raises TypeError.
\<close>

type_synonym dedupe_state = "pyval set \<times> pydict list"

definition dedupe_step :: "dedupe_state \<Rightarrow> pydict \<Rightarrow> pyerr + dedupe_state" where
  "dedupe_step st manga =
     (case dict_get manga ''url'' of
        None \<Rightarrow> Inl KeyError
      | Some u \<Rightarrow>
          if \<not> hashable u then Inl TypeError
          else if u \<notin> fst st then Inr (insert u (fst st), snd st @ [manga])
          else Inr st)"

fun dedupe_loop :: "dedupe_state \<Rightarrow> pydict list \<Rightarrow> pyerr + dedupe_state" where
  "dedupe_loop st [] = Inr st"
| "dedupe_loop st (manga # rest) =
     (case dedupe_step st manga of
        Inl e \<Rightarrow> Inl e
      | Inr st' \<Rightarrow> dedupe_loop st' rest)"

definition dedupe :: "pydict list \<Rightarrow> pyerr + pydict list" where
  "dedupe manga_list =
     (case dedupe_loop ({}, []) manga_list of
        Inl e \<Rightarrow> Inl e
      | Inr st \<Rightarrow> Inr (snd st))"

text \<open>What the specification asks of the result, in its own words.\<close>

definition has_url :: "pydict \<Rightarrow> bool" where
  "has_url m = (case dict_get m ''url'' of None \<Rightarrow> False | Some u \<Rightarrow> hashable u)"

definition url_of :: "pydict \<Rightarrow> pyval option" where
  "url_of m = dict_get m ''url''"

text \<open>
  The records at the positions where a detail URL occurs for the first time, in the
  order of these positions.
\<close>

definition first_seen :: "pydict list \<Rightarrow> pydict list" where
  "first_seen xs =
     map (\<lambda>i. xs ! i)
       (filter (\<lambda>i. \<forall>j<i. url_of (xs ! j) \<noteq> url_of (xs ! i)) [0..<length xs])"

section \<open>Strings\<close>

text \<open>
  \<^verbatim>\<open>str.strip()\<close> removes leading and trailing whitespace; among the code points below
  256 Python takes 9-13, 28-32, 133 and 160 for whitespace.
\<close>

definition py_isspace :: "char \<Rightarrow> bool" where
  "py_isspace c =
     (let n = (of_char c :: nat)
      in (9 \<le> n \<and> n \<le> 13) \<or> (28 \<le> n \<and> n \<le> 32) \<or> n = 133 \<or> n = 160)"

definition strip :: "string \<Rightarrow> string" where
  "strip s = rev (dropWhile py_isspace (rev (dropWhile py_isspace s)))"

definition startswith :: "string \<Rightarrow> string \<Rightarrow> bool" where
  "startswith s p = prefix p s"

text \<open>\<^verbatim>\<open>needle in s\<close> for strings: \<open>needle\<close> occurs in \<open>s\<close> as a contiguous substring.\<close>

fun contains :: "string \<Rightarrow> string \<Rightarrow> bool" where
  "contains [] needle = (needle = [])"
| "contains (c # cs) needle = (prefix needle (c # cs) \<or> contains cs needle)"

text \<open>Decimal rendering of a page number in an f-string.\<close>

definition digit_char :: "nat \<Rightarrow> char" where
  "digit_char d = ''0123456789'' ! d"

fun str_of_nat :: "nat \<Rightarrow> string" where
  "str_of_nat n =
     (if n < 10 then [digit_char n] else str_of_nat (n div 10) @ [digit_char (n mod 10)])"

declare str_of_nat.simps [simp del]

section \<open>Parsed documents\<close>

text \<open>
  BeautifulSoup and its CSS selector engine are libraries outside the repository. A parsed
  document, and every element in it, is represented by what the code reads from it: the
  text of the element (\<^verbatim>\<open>.text\<close>), its attributes, and a table that gives, for a
  selector string, the elements that \<^verbatim>\<open>select\<close> returns for it in document order
  (a selector that is not in the table matches nothing). An element object is always
  true in a boolean context, so \<^verbatim>\<open>a or b\<close> on elements falls through exactly on
  \<^verbatim>\<open>None\<close>; a result list is true when it is not empty.
\<close>

datatype node =
  Node (ntext: string) (nattrs: "(string \<times> string) list") (nsel: "(string \<times> node list) list")

definition select :: "node \<Rightarrow> string \<Rightarrow> node list" where
  "select n sel = (case map_of (nsel n) sel of None \<Rightarrow> [] | Some ns \<Rightarrow> ns)"

definition select_one :: "node \<Rightarrow> string \<Rightarrow> node option" where
  "select_one n sel = (case select n sel of [] \<Rightarrow> None | e # _ \<Rightarrow> Some e)"

text \<open>\<^verbatim>\<open>find('a')\<close>: the first descendant with that tag name, as \<^verbatim>\<open>select_one('a')\<close>.\<close>

definition find_tag :: "node \<Rightarrow> string \<Rightarrow> node option" where
  "find_tag n tag = select_one n tag"

definition attr_get :: "node \<Rightarrow> string \<Rightarrow> string option" where
  "attr_get n a = map_of (nattrs n) a"

text \<open>\<^verbatim>\<open>a or b\<close> on optional elements, on result lists and on optional strings.\<close>

definition or_else :: "'a option \<Rightarrow> 'a option \<Rightarrow> 'a option" where
  "or_else a b = (case a of Some x \<Rightarrow> Some x | None \<Rightarrow> b)"

definition or_list :: "'a list \<Rightarrow> 'a list \<Rightarrow> 'a list" where
  "or_list a b = (if a \<noteq> [] then a else b)"

definition or_str :: "string option \<Rightarrow> string option \<Rightarrow> string option" where
  "or_str a b = (case a of Some s \<Rightarrow> (if s \<noteq> [] then Some s else b) | None \<Rightarrow> b)"

definition opt_str :: "string option \<Rightarrow> pyval" where
  "opt_str a = (case a of None \<Rightarrow> PNone | Some s \<Rightarrow> PStr s)"

section \<open>Effects\<close>

text \<open>
  Everything a function does besides returning is recorded, in order, as a list of events:
  the lines it prints (as structured messages, with the values the f-string formats), the
  pages it fetches and the delays it waits. \<open>Sleep lo hi\<close> is
  \<^verbatim>\<open>await asyncio.sleep(random.uniform(lo, hi))\<close>: the event carries the range the
  duration is drawn from.

  The crawler is a parameter: \<open>crawler cfg url\<close> is the parsed document of the page, or
  \<open>None\<close> when \<^verbatim>\<open>crawler.arun\<close> or the parser raises.
\<close>

datatype msg =
    StartingCrawler
  | ProcessingPage nat
  | FetchingList string
  | FoundAlternative nat
  | FoundPrimary nat
  | ErrorParsingItem
  | ExtractedItems nat
  | ErrorExtractList
  | ProcessingDetails nat nat
  | ExtractingDetails pyval
  | NoGenresFound pyval
  | ErrorExtractingDetails pyval
  | ErrorProcessing pyval
  | SavedItems nat string
  | ErrorSaving string
  | WaitingBeforeNextPage
  | FoundUnique nat nat
  | ScrapingCompleted
  | NoDataCollected

datatype event =
    Print msg
  | FetchList string
  | FetchDetail pyval
  | Sleep rat rat
  | CloseCrawler

datatype run_config = CrawlerRunConfig (cache_enabled: bool) (page_timeout: nat)

type_synonym crawler = "run_config option \<Rightarrow> pyval \<Rightarrow> node option"

definition BASE_URL :: string where
  "BASE_URL = ''https://mangareader.to''"

definition MAX_PAGES :: nat where
  "MAX_PAGES = 710"

section \<open>extract_manga_list\<close>

text \<open>Lines 52-56: the primary selector, else the first alternative that matches.\<close>

definition manga_elements :: "node \<Rightarrow> node list" where
  "manga_elements soup =
     (let primary = select soup ''.item-list .item''
      in if primary = []
         then or_list (select soup ''.book-item'')
                (or_list (select soup ''.manga-item'') (select soup ''.item''))
         else primary)"

definition link_element :: "node \<Rightarrow> node option" where
  "link_element manga =
     or_else (select_one manga ''a.manga-poster'')
       (or_else (select_one manga ''a.poster'') (find_tag manga ''a''))"

definition title_element :: "node \<Rightarrow> node option" where
  "title_element manga =
     or_else (select_one manga ''.manga-detail h3.manga-name a'')
       (or_else (select_one manga ''.detail h3 a'') (link_element manga))"

text \<open>Lines 68-70: a non-empty relative href gets the site origin in front.\<close>

definition manga_url_of :: "node \<Rightarrow> pyval" where
  "manga_url_of link =
     (case attr_get link ''href'' of
        None \<Rightarrow> PNone
      | Some href \<Rightarrow>
          if href \<noteq> [] \<and> \<not> startswith href ''http'' then PStr (BASE_URL @ href)
          else PStr href)"

definition cover_url_of :: "node \<Rightarrow> pyval" where
  "cover_url_of link =
     (case select_one link ''img'' of
        None \<Rightarrow> PNone
      | Some cover_img \<Rightarrow> opt_str (or_str (attr_get cover_img ''src'') (attr_get cover_img ''data-src'')))"

definition title_of :: "node \<Rightarrow> string" where
  "title_of manga =
     (case title_element manga of
        Some t \<Rightarrow> strip (ntext t)
      | None \<Rightarrow> ''Unknown Title'')"

text \<open>
  The body of the loop over the item nodes (lines 62-84): the stub it appends, if any.
  No operation of the body raises on a parsed element, so the handler of line 82 has no
  branch here.
\<close>

definition stub_of :: "node \<Rightarrow> pydict option" where
  "stub_of manga =
     (case link_element manga of
        None \<Rightarrow> None
      | Some link \<Rightarrow>
          Some [(''title'', PStr (title_of manga)),
                (''url'', manga_url_of link),
                (''cover_url'', cover_url_of link)])"

fun stubs_of :: "node list \<Rightarrow> pydict list" where
  "stubs_of [] = []"
| "stubs_of (manga # rest) =
     (case stub_of manga of
        None \<Rightarrow> stubs_of rest
      | Some item \<Rightarrow> item # stubs_of rest)"

definition list_run_config :: run_config where
  "list_run_config = CrawlerRunConfig True 180000"

definition extract_manga_list :: "string \<Rightarrow> crawler \<Rightarrow> event list \<times> pydict list" where
  "extract_manga_list url crawler =
     (case crawler (Some list_run_config) (PStr url) of
        None \<Rightarrow>
          ([Print (FetchingList url), FetchList url, Print ErrorExtractList], [])
      | Some soup \<Rightarrow>
          (let els = manga_elements soup;
               found = (if select soup ''.item-list .item'' = []
                        then FoundAlternative (length els) else FoundPrimary (length els));
               manga_items = stubs_of els
           in ([Print (FetchingList url), FetchList url, Print found,
                Print (ExtractedItems (length manga_items))],
               manga_items)))"

section \<open>filter_navigation_links\<close>

text \<open>
  \<^verbatim>\<open>"az-list" in v\<close>: substring test on a string, membership in a list, key membership
  in a dict; \<^verbatim>\<open>None\<close> and a float are not iterable and the test raises TypeError.
\<close>

fun py_in :: "string \<Rightarrow> pyval \<Rightarrow> pyerr + bool" where
  "py_in needle (PStr s) = Inr (contains s needle)"
| "py_in needle (PList vs) = Inr (PStr needle \<in> set vs)"
| "py_in needle (PDict d) = Inr (needle \<in> fst ` set d)"
| "py_in needle PNone = Inl TypeError"
| "py_in needle (PFloat r) = Inl TypeError"

text \<open>The condition of the comprehension (lines 177-181), before its negation.\<close>

fun is_navigation :: "pyval \<Rightarrow> pyerr + bool" where
  "is_navigation (PDict item) =
     (case dict_get item ''url'' of
        None \<Rightarrow> Inr False
      | Some u \<Rightarrow> py_in ''az-list'' u)"
| "is_navigation v = Inr False"

fun filter_items :: "pyval list \<Rightarrow> pyerr + pyval list" where
  "filter_items [] = Inr []"
| "filter_items (item # rest) =
     (case is_navigation item of
        Inl e \<Rightarrow> Inl e
      | Inr nav \<Rightarrow>
          (case filter_items rest of
             Inl e \<Rightarrow> Inl e
           | Inr kept \<Rightarrow> Inr (if nav then kept else item # kept)))"

fun filter_navigation_links :: "pyval \<Rightarrow> pyerr + pyval" where
  "filter_navigation_links (PList extracted_data) =
     (case filter_items extracted_data of
        Inl e \<Rightarrow> Inl e
      | Inr kept \<Rightarrow> Inr (PList kept))"
| "filter_navigation_links extracted_data = Inr extracted_data"

section \<open>The rating pattern\<close>

text \<open>
  \<^verbatim>\<open>re.search(r"(\d+\.?\d*)", rating_text)\<close>: the search stops at the first position
  where the pattern matches, which is the first digit; there the pattern takes all digits
  that follow, then a dot if one comes next, then all digits after the dot. Every part
  after the first digit is optional, so the greedy match never backtracks. Below code
  point 256 the class \<^verbatim>\<open>\d\<close> is 0-9.
\<close>

definition is_digit :: "char \<Rightarrow> bool" where
  "is_digit c = (c \<in> set ''0123456789'')"

definition match_decimal_at :: "string \<Rightarrow> string" where
  "match_decimal_at s =
     (let int_part = takeWhile is_digit s
      in case dropWhile is_digit s of
           [] \<Rightarrow> int_part
         | c # rest \<Rightarrow>
             if c = CHR ''.'' then int_part @ [c] @ takeWhile is_digit rest else int_part)"

fun re_search_decimal :: "string \<Rightarrow> string option" where
  "re_search_decimal [] = None"
| "re_search_decimal (c # cs) =
     (if is_digit c then Some (match_decimal_at (c # cs)) else re_search_decimal cs)"

text \<open>
  \<^verbatim>\<open>float(match.group(1))\<close>. The argument is always a group of the pattern above:
  digits, optionally a dot and more digits. On such a string \<open>py_float\<close> is the number
  written; any other string is answered with ValueError here and does not occur.
\<close>

definition digit_val :: "char \<Rightarrow> nat" where
  "digit_val c = (of_char c :: nat) - 48"

definition nat_of_digits :: "string \<Rightarrow> nat" where
  "nat_of_digits ds = foldl (\<lambda>a c. 10 * a + digit_val c) 0 ds"

definition py_float :: "string \<Rightarrow> pyerr + rat" where
  "py_float s =
     (let int_part = takeWhile is_digit s;
          rest = dropWhile is_digit s;
          frac = (case rest of [] \<Rightarrow> [] | c # r \<Rightarrow> r)
      in if int_part \<noteq> [] \<and> (rest = [] \<or> (hd rest = CHR ''.'' \<and> list_all is_digit frac))
         then Inr (of_nat (nat_of_digits int_part)
                   + of_nat (nat_of_digits frac) / 10 ^ length frac)
         else Inl ValueError)"

section \<open>extract_manga_details\<close>

definition texts_of :: "node list \<Rightarrow> pyval" where
  "texts_of els = PList (map (\<lambda>e. PStr (strip (ntext e))) els)"

definition set_synopsis :: "node \<Rightarrow> pydict \<Rightarrow> pydict" where
  "set_synopsis soup manga_data =
     dict_set manga_data ''synopsis''
       (case select_one soup ''div.container div.detail-content div.story p.description'' of
          Some synopsis_element \<Rightarrow> PStr (strip (ntext synopsis_element))
        | None \<Rightarrow> PStr ''Not available'')"

definition set_author :: "node \<Rightarrow> pydict \<Rightarrow> pydict" where
  "set_author soup manga_data =
     dict_set manga_data ''author''
       (case select_one soup ''div.container div.detail-info div.author'' of
          Some author_element \<Rightarrow>
            (let authors = select author_element ''a''
             in if authors \<noteq> [] then texts_of authors else PList [PStr ''Unknown''])
        | None \<Rightarrow> PList [PStr ''Unknown''])"

text \<open>Lines 123-124.\<close>

definition genres_primary :: "node \<Rightarrow> pydict \<Rightarrow> pydict" where
  "genres_primary soup manga_data =
     (let genre_elements = select soup ''div.container div.detail-info div.genres a''
      in dict_set manga_data ''genres''
           (if genre_elements \<noteq> [] then texts_of genre_elements else PList []))"

text \<open>\<^verbatim>\<open>not manga_data["genres"]\<close>.\<close>

definition not_genres :: "pydict \<Rightarrow> pyerr + bool" where
  "not_genres manga_data =
     (case dict_get manga_data ''genres'' of
        None \<Rightarrow> Inl KeyError
      | Some g \<Rightarrow> Inr (\<not> truthy g))"

text \<open>Lines 127-130.\<close>

definition genres_alternative :: "node \<Rightarrow> pydict \<Rightarrow> pyerr + pydict" where
  "genres_alternative soup manga_data =
     (case not_genres manga_data of
        Inl e \<Rightarrow> Inl e
      | Inr False \<Rightarrow> Inr manga_data
      | Inr True \<Rightarrow>
          (let alt_genre_elements =
                 or_list (select soup ''.genres-content .genres-button'') (select soup ''.genres a'')
           in Inr (dict_set manga_data ''genres''
                    (if alt_genre_elements \<noteq> [] then texts_of alt_genre_elements else PList []))))"

text \<open>Lines 133-139: the loop over the broader selectors, left at the first match.\<close>

fun broader_loop :: "node \<Rightarrow> pydict \<Rightarrow> string list \<Rightarrow> pydict" where
  "broader_loop soup manga_data [] = manga_data"
| "broader_loop soup manga_data (selector # rest) =
     (let alt_genre_elements = select soup selector
      in if alt_genre_elements \<noteq> []
         then dict_set manga_data ''genres'' (texts_of alt_genre_elements)
         else broader_loop soup manga_data rest)"

definition broader_selectors :: "string list" where
  "broader_selectors = [''.info .genres a'', ''.manga-info .genres a'', ''[class*='' @ [CHR 0x27] @ ''genre'' @ [CHR 0x27] @ '']'']"

definition genres_broader :: "node \<Rightarrow> pydict \<Rightarrow> pyerr + pydict" where
  "genres_broader soup manga_data =
     (case not_genres manga_data of
        Inl e \<Rightarrow> Inl e
      | Inr False \<Rightarrow> Inr manga_data
      | Inr True \<Rightarrow> Inr (broader_loop soup manga_data broader_selectors))"

text \<open>
  Lines 142-144. The message formats \<^verbatim>\<open>manga_data['title']\<close>; without that key the
  f-string raises KeyError and nothing is printed.
\<close>

definition genres_default :: "pydict \<Rightarrow> event list \<times> (pyerr + pydict)" where
  "genres_default manga_data =
     (case not_genres manga_data of
        Inl e \<Rightarrow> ([], Inl e)
      | Inr False \<Rightarrow> ([], Inr manga_data)
      | Inr True \<Rightarrow>
          (let md = dict_set manga_data ''genres'' (PList [])
           in case dict_get md ''title'' of
                None \<Rightarrow> ([], Inl KeyError)
              | Some t \<Rightarrow> ([Print (NoGenresFound t)], Inr md)))"

definition set_cover :: "node \<Rightarrow> pydict \<Rightarrow> pydict" where
  "set_cover soup manga_data =
     (case select_one soup ''div.container div.thumb img'' of
        None \<Rightarrow> manga_data
      | Some cover_element \<Rightarrow>
          (case attr_get cover_element ''src'' of
             None \<Rightarrow> manga_data
           | Some src \<Rightarrow> dict_set manga_data ''cover_image'' (PStr src)))"

definition rating_selector :: string where
  "rating_selector = ''div.container div.detail-info div.detail-info-right span.vote-avg strong''"

text \<open>Lines 152-161: the value stored under \<open>rating\<close>.\<close>

definition rating_of_text :: "string \<Rightarrow> pyerr + pyval" where
  "rating_of_text text =
     (let rating_text = strip text
      in case re_search_decimal rating_text of
           None \<Rightarrow> Inr PNone
         | Some group1 \<Rightarrow>
             (case py_float group1 of
                Inl e \<Rightarrow> Inl e
              | Inr r \<Rightarrow> Inr (PFloat r)))"

definition extract_rating :: "node \<Rightarrow> pyerr + pyval" where
  "extract_rating soup =
     (case select_one soup rating_selector of
        None \<Rightarrow> Inr PNone
      | Some rating_element \<Rightarrow> rating_of_text (ntext rating_element))"

definition set_rating :: "node \<Rightarrow> pydict \<Rightarrow> pyerr + pydict" where
  "set_rating soup manga_data =
     (case extract_rating soup of
        Inl e \<Rightarrow> Inl e
      | Inr r \<Rightarrow> Inr (dict_set manga_data ''rating'' r))"

definition set_status :: "node \<Rightarrow> pydict \<Rightarrow> pydict" where
  "set_status soup manga_data =
     dict_set manga_data ''status''
       (case or_else (select_one soup ''div.container div.detail-info .status span.value'')
               (select_one soup ''.manga-status'') of
          Some status_element \<Rightarrow> PStr (strip (ntext status_element))
        | None \<Rightarrow> PStr ''Unknown'')"

text \<open>The statements of the try block after the document is parsed (lines 108-167).\<close>

definition details_body :: "node \<Rightarrow> pydict \<Rightarrow> event list \<times> (pyerr + pydict)" where
  "details_body soup basic_info =
     (let md1 = genres_primary soup (set_author soup (set_synopsis soup basic_info))
      in case genres_alternative soup md1 of
           Inl e \<Rightarrow> ([], Inl e)
         | Inr md2 \<Rightarrow>
             (case genres_broader soup md2 of
                Inl e \<Rightarrow> ([], Inl e)
              | Inr md3 \<Rightarrow>
                  (case genres_default md3 of
                     (ev, Inl e) \<Rightarrow> (ev, Inl e)
                   | (ev, Inr md4) \<Rightarrow>
                       (case set_rating soup (set_cover soup md4) of
                          Inl e \<Rightarrow> (ev, Inl e)
                        | Inr md5 \<Rightarrow> (ev, Inr (set_status soup md5))))))"

text \<open>
  The whole function. Whatever is raised inside the try block is caught (line 168): the
  function prints the error, stores an empty list under \<open>genres\<close> in \<open>basic_info\<close> and
  returns \<open>basic_info\<close>.
\<close>

definition details_failed :: "pyval \<Rightarrow> pydict \<Rightarrow> event list \<Rightarrow> event list \<times> pydict" where
  "details_failed url basic_info ev =
     (ev @ [Print (ErrorExtractingDetails url)], dict_set basic_info ''genres'' (PList []))"

definition extract_manga_details :: "pyval \<Rightarrow> pydict \<Rightarrow> crawler \<Rightarrow> event list \<times> pydict" where
  "extract_manga_details url basic_info crawler =
     (let start = [Print (ExtractingDetails
                     (case dict_get basic_info ''title'' of Some t \<Rightarrow> t | None \<Rightarrow> PStr ''Unknown'')),
                   FetchDetail url]
      in case crawler None url of
           None \<Rightarrow> details_failed url basic_info start
         | Some soup \<Rightarrow>
             (case details_body soup basic_info of
                (ev, Inl e) \<Rightarrow> details_failed url basic_info (start @ ev)
              | (ev, Inr manga_data) \<Rightarrow> (start @ ev, manga_data)))"

definition OUTPUT_FILE :: string where
  "OUTPUT_FILE = ''manga_data.json''"

section \<open>save_to_json\<close>

text \<open>
  The file system and the JSON encoder are outside the repository and are parameters:
  \<^item> \<open>makedirs d fs\<close> is \<^verbatim>\<open>os.makedirs(d, exist_ok=True)\<close>, \<open>None\<close> when it raises;
  \<^item> \<open>parent_dir f\<close> is \<^verbatim>\<open>os.path.dirname(os.path.abspath(f))\<close>;
  \<^item> \<open>open_w f fs\<close> is \<^verbatim>\<open>open(f, 'w', encoding='utf-8')\<close>, \<open>None\<close> when it raises;
  \<^item> \<open>json_dumps indent ensure_ascii v\<close> is the text \<^verbatim>\<open>json.dump\<close> produces, \<open>None\<close>
    when the encoder raises;
  \<^item> \<open>write_text f text fs\<close> writes the text to the opened file and closes it; the flag
    tells whether that went through without an exception.
  The function has no return statement: it returns \<^verbatim>\<open>None\<close> on every path, and the third
  component of the result is that value.
\<close>

record 'fs os_env =
  makedirs :: "string \<Rightarrow> 'fs \<Rightarrow> 'fs option"
  parent_dir :: "string \<Rightarrow> string"
  open_w :: "string \<Rightarrow> 'fs \<Rightarrow> 'fs option"
  json_dumps :: "nat \<Rightarrow> bool \<Rightarrow> pyval \<Rightarrow> string option"
  write_text :: "string \<Rightarrow> string \<Rightarrow> 'fs \<Rightarrow> 'fs \<times> bool"

definition save_to_json ::
  "'fs os_env \<Rightarrow> pydict list \<Rightarrow> string \<Rightarrow> 'fs \<Rightarrow> event list \<times> 'fs \<times> pyval" where
  "save_to_json env data filename fs =
     (case makedirs env (parent_dir env filename) fs of
        None \<Rightarrow> ([Print (ErrorSaving filename)], fs, PNone)
      | Some fs1 \<Rightarrow>
          (case open_w env filename fs1 of
             None \<Rightarrow> ([Print (ErrorSaving filename)], fs1, PNone)
           | Some fs2 \<Rightarrow>
               (case json_dumps env 2 False (PList (map PDict data)) of
                  None \<Rightarrow> ([Print (ErrorSaving filename)], fs2, PNone)
                | Some text \<Rightarrow>
                    (case write_text env filename text fs2 of
                       (fs3, False) \<Rightarrow> ([Print (ErrorSaving filename)], fs3, PNone)
                     | (fs3, True) \<Rightarrow>
                         ([Print (SavedItems (length data) filename)], fs3, PNone)))))"

section \<open>main\<close>

text \<open>
  One turn of the loop over the stubs of a page (lines 228-242), for the stub at index
  \<open>i\<close> of \<open>n\<close>. \<^verbatim>\<open>manga["url"]\<close> raises KeyError on a dict without that key and
  TypeError on anything that is not a dict; both are caught by line 238. The handler
  calls \<^verbatim>\<open>manga.get\<close>, which only a dict has: on another value AttributeError leaves the
  loop and the function.
\<close>

definition process_item :: "crawler \<Rightarrow> nat \<Rightarrow> nat \<Rightarrow> pyval \<Rightarrow> event list \<times> (pyerr + pydict)" where
  "process_item crawler n i manga =
     (case manga of
        PDict m \<Rightarrow>
          (case dict_get m ''url'' of
             Some url \<Rightarrow>
               (case extract_manga_details url m crawler of
                  (ev, manga_data) \<Rightarrow>
                    (ev @ (if int i < int n - 1 then [Sleep 2 4] else []), Inr manga_data))
           | None \<Rightarrow>
               ([Print (ErrorProcessing
                   (case dict_get m ''title'' of Some t \<Rightarrow> t | None \<Rightarrow> PStr ''Unknown''))],
                Inr (dict_set m ''genres'' (PList []))))
      | _ \<Rightarrow> ([], Inl AttributeError))"

fun process_items ::
  "crawler \<Rightarrow> nat \<Rightarrow> nat \<Rightarrow> pyval list \<Rightarrow> event list \<times> (pyerr + pydict list)" where
  "process_items crawler n i [] = ([], Inr [])"
| "process_items crawler n i (manga # rest) =
     (case process_item crawler n i manga of
        (ev, Inl e) \<Rightarrow> (ev, Inl e)
      | (ev, Inr manga_data) \<Rightarrow>
          (case process_items crawler n (Suc i) rest of
             (ev', Inl e) \<Rightarrow> (ev @ ev', Inl e)
           | (ev', Inr page_manga_data) \<Rightarrow> (ev @ ev', Inr (manga_data # page_manga_data))))"

definition page_url :: "nat \<Rightarrow> string" where
  "page_url page = BASE_URL @ ''/az-list?page='' @ str_of_nat page"

definition page_output_file :: "nat \<Rightarrow> string" where
  "page_output_file page = ''manga_data_page'' @ str_of_nat page @ ''.json''"

text \<open>
  The body of the loop over the pages (lines 217-255), up to the extension of
  \<open>manga_list\<close>. An exception of \<open>filter_navigation_links\<close> is not caught in \<open>main\<close>.
\<close>

definition process_page ::
  "'fs os_env \<Rightarrow> crawler \<Rightarrow> nat \<Rightarrow> 'fs \<Rightarrow> event list \<times> 'fs \<times> (pyerr + pydict list)" where
  "process_page env crawler page fs =
     (case extract_manga_list (page_url page) crawler of
        (ev1, page_manga_list) \<Rightarrow>
          (case filter_navigation_links (PList (map PDict page_manga_list)) of
             Inl e \<Rightarrow> (Print (ProcessingPage page) # ev1, fs, Inl e)
           | Inr (PList items) \<Rightarrow>
               (case process_items crawler (length items) 0 items of
                  (ev2, Inl e) \<Rightarrow>
                    (Print (ProcessingPage page) # ev1
                       @ Print (ProcessingDetails page (length items)) # ev2, fs, Inl e)
                | (ev2, Inr page_manga_data) \<Rightarrow>
                    (case save_to_json env page_manga_data (page_output_file page) fs of
                       (ev3, fs', r) \<Rightarrow>
                         (Print (ProcessingPage page) # ev1
                            @ Print (ProcessingDetails page (length items)) # ev2 @ ev3
                            @ (if page < MAX_PAGES
                               then [Print WaitingBeforeNextPage, Sleep 3 6] else []),
                          fs', Inr page_manga_data)))
           | Inr other \<Rightarrow> (Print (ProcessingPage page) # ev1, fs, Inl TypeError)))"

fun main_pages ::
  "'fs os_env \<Rightarrow> crawler \<Rightarrow> nat list \<Rightarrow> 'fs \<Rightarrow> pydict list
     \<Rightarrow> event list \<times> 'fs \<times> (pyerr + pydict list)" where
  "main_pages env crawler [] fs manga_list = ([], fs, Inr manga_list)"
| "main_pages env crawler (page # pages) fs manga_list =
     (case process_page env crawler page fs of
        (ev, fs', Inl e) \<Rightarrow> (ev, fs', Inl e)
      | (ev, fs', Inr page_manga_data) \<Rightarrow>
          (case main_pages env crawler pages fs' (manga_list @ page_manga_data) of
             (ev', fs'', r) \<Rightarrow> (ev @ ev', fs'', r)))"

text \<open>
  The run: the pages 595 to \<open>MAX_PAGES\<close>, deduplication, the final file; the crawler is
  closed on every path. The result holds the events of the run, the file system it leaves
  and the final value of \<open>manga_list\<close>, or the exception that ended the run.
\<close>

definition main_run ::
  "'fs os_env \<Rightarrow> crawler \<Rightarrow> 'fs \<Rightarrow> event list \<times> 'fs \<times> (pyerr + pydict list)" where
  "main_run env crawler fs =
     (case main_pages env crawler [595..<MAX_PAGES + 1] fs [] of
        (ev, fs', Inl e) \<Rightarrow> (Print StartingCrawler # ev @ [CloseCrawler], fs', Inl e)
      | (ev, fs', Inr manga_list) \<Rightarrow>
          (case dedupe manga_list of
             Inl e \<Rightarrow> (Print StartingCrawler # ev @ [CloseCrawler], fs', Inl e)
           | Inr unique_manga_list \<Rightarrow>
               if unique_manga_list \<noteq> []
               then (case save_to_json env unique_manga_list OUTPUT_FILE fs' of
                       (ev2, fs'', r) \<Rightarrow>
                         (Print StartingCrawler # ev
                            @ Print (FoundUnique (length unique_manga_list) MAX_PAGES) # ev2
                            @ [Print ScrapingCompleted, CloseCrawler],
                          fs'', Inr unique_manga_list))
               else (Print StartingCrawler # ev
                       @ [Print (FoundUnique (length unique_manga_list) MAX_PAGES),
                          Print NoDataCollected, CloseCrawler],
                     fs', Inr unique_manga_list)))"

section \<open>Notions used to state the properties\<close>

text \<open>An item node without any anchor: none of the three link selectors matches in it.\<close>

definition no_anchor :: "node \<Rightarrow> bool" where
  "no_anchor manga =
     (select manga ''a.manga-poster'' = [] \<and> select manga ''a.poster'' = [] \<and> select manga ''a'' = [])"

text \<open>
  The entries the filter is meant to remove, and the lists on which every \<open>url\<close> value
  is a string.
\<close>

definition navigational :: "pyval \<Rightarrow> bool" where
  "navigational item =
     (\<exists>d s. item = PDict d \<and> dict_get d ''url'' = Some (PStr s) \<and> contains s ''az-list'')"

definition str_url_items :: "pyval list \<Rightarrow> bool" where
  "str_url_items items =
     (\<forall>d u. PDict d \<in> set items \<longrightarrow> dict_get d ''url'' = Some u \<longrightarrow> (\<exists>s. u = PStr s))"

text \<open>
  A small catalog page for concrete runs: three item nodes, the second without an anchor,
  and a crawler that serves this page for every list request and fails on every detail
  request. In \<open>nohref_page\<close> the only item has an anchor without \<open>href\<close>.
\<close>

definition example_item :: "string \<Rightarrow> string \<Rightarrow> node" where
  "example_item title href = Node title [] [(''a'', [Node title [(''href'', href)] []])]"

definition example_list_page :: node where
  "example_list_page =
     Node [] []
       [(''.item-list .item'',
         [example_item ''Alpha '' ''/alpha'', Node ''Beta'' [] [],
          example_item ''Gamma'' ''https://x.test/gamma''])]"

definition example_crawler :: crawler where
  "example_crawler cfg url = (case cfg of Some c \<Rightarrow> Some example_list_page | None \<Rightarrow> None)"

definition nohref_page :: node where
  "nohref_page = Node [] [] [(''.item-list .item'', [Node ''T'' [] [(''a'', [Node ''T'' [] []])]])]"

definition nohref_crawler :: crawler where
  "nohref_crawler cfg url = (case cfg of Some c \<Rightarrow> Some nohref_page | None \<Rightarrow> None)"

text \<open>An environment in which every file operation succeeds, except opening the empty path.\<close>

definition example_env :: "(string \<times> string) list os_env" where
  "example_env =
     \<lparr> makedirs = (\<lambda>d fs. Some fs),
       parent_dir = (\<lambda>f. ''/work''),
       open_w = (\<lambda>f fs. if f = [] then None else Some (AList.update f [] fs)),
       json_dumps = (\<lambda>indent ensure_ascii v. if v = PList [] then Some ''[]'' else Some ''[...]''),
       write_text = (\<lambda>f text fs. (AList.update f text fs, True)) \<rparr>"

text \<open>
  The genre selectors in the order in which the code tries them: the primary one, the two
  of the first alternative group, the three of the second; and the first of a list of
  selectors that matches anything in the document.
\<close>

definition genre_selectors :: "string list" where
  "genre_selectors =
     [''div.container div.detail-info div.genres a'',
      ''.genres-content .genres-button'', ''.genres a''] @ broader_selectors"

definition first_match :: "node \<Rightarrow> string list \<Rightarrow> node list" where
  "first_match soup sels =
     (case filter (\<lambda>els. els \<noteq> []) (map (select soup) sels) of
        [] \<Rightarrow> []
      | els # _ \<Rightarrow> els)"

text \<open>
  The number a decimal numeral denotes, and the first decimal number in a text: it starts
  at the first digit, takes all digits that follow, and a dot with the digits after it
  when a dot comes directly after them.
\<close>

definition decimal_value :: "string \<Rightarrow> string \<Rightarrow> rat" where
  "decimal_value ip fp = of_nat (nat_of_digits ip) + of_nat (nat_of_digits fp) / 10 ^ length fp"

definition first_decimal :: "string \<Rightarrow> string \<Rightarrow> string \<Rightarrow> string \<Rightarrow> bool" where
  "first_decimal text ip dot fp =
     (\<exists>pre post. text = pre @ ip @ dot @ fp @ post
        \<and> (\<forall>c\<in>set pre. \<not> is_digit c)
        \<and> ip \<noteq> [] \<and> list_all is_digit ip \<and> list_all is_digit fp
        \<and> (dot = [] \<or> dot = ''.'')
        \<and> (dot = [] \<longrightarrow> fp = [] \<and> (post = [] \<or> hd post \<noteq> CHR ''.''))
        \<and> (post = [] \<or> \<not> is_digit (hd post)))"

text \<open>A stub, a detail page with a rating and genres, and crawlers that serve detail pages.\<close>

definition example_stub :: pydict where
  "example_stub =
     [(''title'', PStr ''Alpha''), (''url'', PStr ''https://mangareader.to/alpha''),
      (''cover_url'', PNone)]"

definition example_detail_page :: node where
  "example_detail_page =
     Node [] []
       [(rating_selector, [Node '' 8.5/10 '' [] []]),
        (''.genres a'', [Node '' Action'' [] [], Node ''Drama '' [] []])]"

definition detail_crawler :: crawler where
  "detail_crawler cfg url =
     (case cfg of Some c \<Rightarrow> Some example_list_page | None \<Rightarrow> Some example_detail_page)"

definition bare_crawler :: crawler where
  "bare_crawler cfg url = Some (Node [] [] [])"

text \<open>
  The requests and delays of a run: its events without the printed lines and the closing
  of the crawler.
\<close>

fun timing :: "event \<Rightarrow> bool" where
  "timing (FetchList url) = True"
| "timing (FetchDetail url) = True"
| "timing (Sleep lo hi) = True"
| "timing (Print m) = False"
| "timing CloseCrawler = False"

definition requests_and_delays :: "event list \<Rightarrow> event list" where
  "requests_and_delays ev = filter timing ev"

text \<open>A separator between every two neighbours of a list, and between every two lists.\<close>

fun intersperse :: "'a \<Rightarrow> 'a list \<Rightarrow> 'a list" where
  "intersperse sep [] = []"
| "intersperse sep [x] = [x]"
| "intersperse sep (x # y # rest) = x # sep # intersperse sep (y # rest)"

fun intercalate :: "'a list \<Rightarrow> 'a list list \<Rightarrow> 'a list" where
  "intercalate sep [] = []"
| "intercalate sep [xs] = xs"
| "intercalate sep (xs # ys # rest) = xs @ sep @ intercalate sep (ys # rest)"

text \<open>
  The entries of a page that the filter lets through, the detail URLs among them, and
  the requests of a page with a per-item delay between every two detail fetches.
\<close>

definition page_items :: "crawler \<Rightarrow> nat \<Rightarrow> pyerr + pyval list" where
  "page_items crawler page =
     (case filter_navigation_links
             (PList (map PDict (snd (extract_manga_list (page_url page) crawler)))) of
        Inl e \<Rightarrow> Inl e
      | Inr (PList items) \<Rightarrow> Inr items
      | Inr other \<Rightarrow> Inl TypeError)"

fun urls_of :: "pyval list \<Rightarrow> pyval list" where
  "urls_of [] = []"
| "urls_of (PDict m # rest) =
     (case dict_get m ''url'' of Some u \<Rightarrow> u # urls_of rest | None \<Rightarrow> urls_of rest)"
| "urls_of (v # rest) = urls_of rest"

definition detail_urls :: "crawler \<Rightarrow> nat \<Rightarrow> pyval list" where
  "detail_urls crawler page =
     (case page_items crawler page of Inl e \<Rightarrow> [] | Inr items \<Rightarrow> urls_of items)"

definition page_requests :: "crawler \<Rightarrow> nat \<Rightarrow> event list" where
  "page_requests crawler page =
     FetchList (page_url page)
       # intersperse (Sleep 2 4) (map FetchDetail (detail_urls crawler page))"

text \<open>Lists of dicts that all have a \<open>url\<close> key.\<close>

definition stub_items :: "pyval list \<Rightarrow> bool" where
  "stub_items items = (\<forall>item\<in>set items. \<exists>m u. item = PDict m \<and> dict_get m ''url'' = Some u)"

section \<open>Properties of deduplication\<close>

lemma dedupe_loop_append:
  "dedupe_loop st (xs @ ys) =
     (case dedupe_loop st xs of Inl e \<Rightarrow> Inl e | Inr st' \<Rightarrow> dedupe_loop st' ys)"
  by (induction xs arbitrary: st) (auto split: sum.splits)

lemma first_seen_Nil: "first_seen [] = []"
  by (simp add: first_seen_def)

lemma first_seen_snoc:
  "first_seen (xs @ [x]) =
     first_seen xs @ (if url_of x \<in> url_of ` set xs then [] else [x])"
proof -
  let ?n = "length xs"
  let ?P = "\<lambda>ys i. \<forall>j<i. url_of (ys ! j) \<noteq> url_of (ys ! i)"
  have old: "filter (?P (xs @ [x])) [0..<?n] = filter (?P xs) [0..<?n]"
    by (rule filter_cong) (auto simp: nth_append)
  have map_old: "map (\<lambda>i. (xs @ [x]) ! i) (filter (?P xs) [0..<?n])
               = map (\<lambda>i. xs ! i) (filter (?P xs) [0..<?n])"
    by (rule map_cong) (auto simp: nth_append)
  have last: "?P (xs @ [x]) ?n \<longleftrightarrow> url_of x \<notin> url_of ` set xs"
  proof
    assume p: "?P (xs @ [x]) ?n"
    show "url_of x \<notin> url_of ` set xs"
    proof
      assume "url_of x \<in> url_of ` set xs"
      then obtain j where "j < ?n" "url_of (xs ! j) = url_of x"
        by (auto simp: in_set_conv_nth)
      with p show False by (auto simp: nth_append)
    qed
  next
    assume "url_of x \<notin> url_of ` set xs"
    then have "\<forall>j<?n. url_of (xs ! j) \<noteq> url_of x"
      by (metis image_eqI nth_mem)
    then show "?P (xs @ [x]) ?n" by (simp add: nth_append)
  qed
  show ?thesis
    unfolding first_seen_def
    using old map_old last by (simp add: nth_append)
qed

lemma url_of_first_seen: "url_of ` set (first_seen xs) = url_of ` set xs"
  by (induction xs rule: rev_induct) (auto simp: first_seen_Nil first_seen_snoc)

lemma distinct_first_seen: "distinct (map url_of (first_seen xs))"
  by (induction xs rule: rev_induct)
     (auto simp: first_seen_Nil first_seen_snoc url_of_first_seen)

lemma subseq_first_seen: "subseq (first_seen xs) xs"
proof (induction xs rule: rev_induct)
  case Nil
  show ?case by (simp add: first_seen_Nil)
next
  case (snoc x xs)
  have "subseq (if url_of x \<in> url_of ` set xs then [] else [x]) [x]"
    by simp
  with snoc show ?case
    unfolding first_seen_snoc by (rule list_emb_append_mono)
qed

lemma first_seen_distinct:
  "distinct (map url_of xs) \<Longrightarrow> first_seen xs = xs"
  by (induction xs rule: rev_induct) (auto simp: first_seen_Nil first_seen_snoc)

lemma dedupe_loop_first_seen:
  "\<forall>m\<in>set xs. has_url m \<Longrightarrow>
   dedupe_loop ({}, []) xs = Inr (the ` (url_of ` set xs), first_seen xs)"
proof (induction xs rule: rev_induct)
  case Nil
  show ?case by (simp add: first_seen_Nil)
next
  case (snoc x xs)
  then have ih: "dedupe_loop ({}, []) xs = Inr (the ` (url_of ` set xs), first_seen xs)"
    by simp
  from snoc.prems obtain u where u: "dict_get x ''url'' = Some u" "hashable u"
    by (auto simp: has_url_def split: option.splits)
  have all_some: "\<forall>m\<in>set xs. \<exists>v. url_of m = Some v"
    using snoc.prems by (auto simp: has_url_def url_of_def split: option.splits)
  have mem: "u \<in> the ` (url_of ` set xs) \<longleftrightarrow> url_of x \<in> url_of ` set xs"
  proof
    assume "u \<in> the ` (url_of ` set xs)"
    then obtain m where m: "m \<in> set xs" "u = the (url_of m)" by auto
    with all_some obtain v where "url_of m = Some v" by blast
    with m u show "url_of x \<in> url_of ` set xs"
      by (force simp: url_of_def)
  next
    assume "url_of x \<in> url_of ` set xs"
    then obtain m where "m \<in> set xs" "url_of m = url_of x" by force
    with u show "u \<in> the ` (url_of ` set xs)"
      by (force simp: url_of_def)
  qed
  have img: "the ` (url_of ` set (xs @ [x])) = insert u (the ` (url_of ` set xs))"
    using u by (auto simp: url_of_def)
  show ?case
    using u mem img
    by (auto simp: dedupe_loop_append ih dedupe_step_def first_seen_snoc insert_absorb)
qed

lemma dedupe_first_seen:
  "\<forall>m\<in>set xs. has_url m \<Longrightarrow> dedupe xs = Inr (first_seen xs)"
  by (simp add: dedupe_def dedupe_loop_first_seen)

lemma set_first_seen: "set (first_seen xs) \<subseteq> set xs"
  by (induction xs rule: rev_induct) (auto simp: first_seen_Nil first_seen_snoc)

text \<open>
  C1. When every record carries a (hashable) detail URL under the key \<open>url\<close>, the
  deduplication loop returns a list; no two of its records have the same URL; it is a
  subsequence of the input; and it consists of exactly the records at the first
  occurrence of each URL, in the order in which these URLs are first seen.
\<close>

theorem dedupe_first_occurrences:
  assumes "\<forall>m\<in>set xs. has_url m"
  shows "\<exists>ys. dedupe xs = Inr ys
            \<and> distinct (map url_of ys)
            \<and> subseq ys xs
            \<and> url_of ` set ys = url_of ` set xs
            \<and> ys = first_seen xs"
  using assms
  by (simp add: dedupe_first_seen distinct_first_seen subseq_first_seen url_of_first_seen)

theorem dedupe_first_occurrences_witness:
  "has_url [(''title'', PStr ''A''), (''url'', PStr ''/a'')]
   \<and> has_url [(''title'', PStr ''B''), (''url'', PStr ''/b'')]
   \<and> has_url [(''title'', PStr ''A2''), (''url'', PStr ''/a'')]
   \<and> dedupe [[(''title'', PStr ''A''), (''url'', PStr ''/a'')],
             [(''title'', PStr ''B''), (''url'', PStr ''/b'')],
             [(''title'', PStr ''A2''), (''url'', PStr ''/a'')]]
       = Inr [[(''title'', PStr ''A''), (''url'', PStr ''/a'')],
              [(''title'', PStr ''B''), (''url'', PStr ''/b'')]]"
proof -
  let ?xs = "[[(''title'', PStr ''A''), (''url'', PStr ''/a'')],
              [(''title'', PStr ''B''), (''url'', PStr ''/b'')],
              [(''title'', PStr ''A2''), (''url'', PStr ''/a'')]]"
  have h: "\<forall>m\<in>set ?xs. has_url m"
    by (simp add: has_url_def dict_get_def)
  have fs: "first_seen ?xs = [[(''title'', PStr ''A''), (''url'', PStr ''/a'')],
                              [(''title'', PStr ''B''), (''url'', PStr ''/b'')]]"
    using first_seen_snoc [of "[[(''title'', PStr ''A''), (''url'', PStr ''/a'')],
                                [(''title'', PStr ''B''), (''url'', PStr ''/b'')]]"
                              "[(''title'', PStr ''A2''), (''url'', PStr ''/a'')]"]
          first_seen_distinct [of "[[(''title'', PStr ''A''), (''url'', PStr ''/a'')],
                                    [(''title'', PStr ''B''), (''url'', PStr ''/b'')]]"]
    by (simp add: url_of_def dict_get_def)
  from dedupe_first_occurrences [OF h] fs h show ?thesis by auto
qed

text \<open>
  C6. Deduplication is idempotent: on a list of records that all carry a detail URL it
  returns a list, and applied to that list it returns the same list.
\<close>

theorem dedupe_idempotent:
  assumes "\<forall>m\<in>set xs. has_url m"
  shows "\<exists>ys. dedupe xs = Inr ys \<and> dedupe ys = Inr ys"
proof -
  have "\<forall>m\<in>set (first_seen xs). has_url m"
    using assms set_first_seen by blast
  then have "dedupe (first_seen xs) = Inr (first_seen (first_seen xs))"
    by (rule dedupe_first_seen)
  also have "first_seen (first_seen xs) = first_seen xs"
    by (rule first_seen_distinct) (rule distinct_first_seen)
  finally show ?thesis
    using dedupe_first_seen [OF assms] by simp
qed

theorem dedupe_idempotent_witness:
  "has_url [(''url'', PStr ''/x'')] \<and> has_url [(''url'', PNone)]
   \<and> (\<exists>ys. dedupe [[(''url'', PStr ''/x'')], [(''url'', PStr ''/x'')], [(''url'', PNone)]] = Inr ys
          \<and> dedupe ys = Inr ys)"
proof -
  have h: "\<forall>m\<in>set [[(''url'', PStr ''/x'')], [(''url'', PStr ''/x'')], [(''url'', PNone)]]. has_url m"
    by (simp add: has_url_def dict_get_def)
  from dedupe_idempotent [OF h] h show ?thesis by simp
qed

section \<open>Properties of extract_manga_list\<close>

lemma select_one_None_iff: "select_one n sel = None \<longleftrightarrow> select n sel = []"
  by (simp add: select_one_def split: list.splits)

lemma or_else_None_iff: "or_else a b = None \<longleftrightarrow> a = None \<and> b = None"
  by (simp add: or_else_def split: option.splits)

lemma link_element_None_iff: "link_element manga = None \<longleftrightarrow> no_anchor manga"
  by (simp add: link_element_def no_anchor_def or_else_None_iff find_tag_def select_one_None_iff)

lemma stub_of_None_iff: "stub_of manga = None \<longleftrightarrow> no_anchor manga"
  by (simp add: stub_of_def link_element_None_iff [symmetric] split: option.splits)

lemma stubs_of_filter:
  "stubs_of els = map (\<lambda>m. the (stub_of m)) (filter (\<lambda>m. \<not> no_anchor m) els)"
  by (induction els) (auto simp: stub_of_None_iff [symmetric] split: option.splits)

lemma snd_extract_manga_list:
  "snd (extract_manga_list url crawler) =
     (case crawler (Some list_run_config) (PStr url) of
        None \<Rightarrow> []
      | Some soup \<Rightarrow> stubs_of (manga_elements soup))"
  by (simp add: extract_manga_list_def Let_def split: option.splits)

text \<open>
  C7. \<open>extract_manga_list\<close> returns a list on every path. When the fetch or the parser
  raises, and when no item node matches, the list is empty. Otherwise it holds, in
  document order, one stub for each item node in which a link element is found; a node
  without an anchor is skipped and the nodes after it are still processed. A page with
  three item nodes, exactly one of them without an anchor, gives exactly two stubs.
\<close>

theorem extract_manga_list_skips_unlinked:
  "(crawler (Some list_run_config) (PStr url) = None \<longrightarrow>
      snd (extract_manga_list url crawler) = [])
   \<and> (\<forall>soup. crawler (Some list_run_config) (PStr url) = Some soup \<longrightarrow>
         (manga_elements soup = [] \<longrightarrow> snd (extract_manga_list url crawler) = [])
       \<and> snd (extract_manga_list url crawler)
           = map (\<lambda>m. the (stub_of m)) (filter (\<lambda>m. \<not> no_anchor m) (manga_elements soup))
       \<and> (length (manga_elements soup) = 3
            \<and> length (filter no_anchor (manga_elements soup)) = 1 \<longrightarrow>
          length (snd (extract_manga_list url crawler)) = 2))"
proof (intro conjI allI impI)
  assume "crawler (Some list_run_config) (PStr url) = None"
  then show "snd (extract_manga_list url crawler) = []"
    by (simp add: snd_extract_manga_list)
next
  fix soup
  assume c: "crawler (Some list_run_config) (PStr url) = Some soup"
  then have eq: "snd (extract_manga_list url crawler)
      = map (\<lambda>m. the (stub_of m)) (filter (\<lambda>m. \<not> no_anchor m) (manga_elements soup))"
    by (simp add: snd_extract_manga_list stubs_of_filter)
  show "snd (extract_manga_list url crawler)
      = map (\<lambda>m. the (stub_of m)) (filter (\<lambda>m. \<not> no_anchor m) (manga_elements soup))"
    by (rule eq)
  {
    assume "manga_elements soup = []"
    then show "snd (extract_manga_list url crawler) = []" by (simp add: eq)
  }
  {
    assume three: "length (manga_elements soup) = 3
                 \<and> length (filter no_anchor (manga_elements soup)) = 1"
    have "length (filter no_anchor (manga_elements soup))
          + length (filter (\<lambda>m. \<not> no_anchor m) (manga_elements soup))
          = length (manga_elements soup)"
      by (rule sum_length_filter_compl)
    with three show "length (snd (extract_manga_list url crawler)) = 2"
      by (simp add: eq)
  }
qed

lemmas example_simps =
  example_crawler_def example_list_page_def example_item_def manga_elements_def select_def
  select_one_def find_tag_def or_else_def or_list_def no_anchor_def link_element_def
  title_element_def title_of_def stub_of_def manga_url_of_def cover_url_of_def attr_get_def
  startswith_def strip_def py_isspace_def BASE_URL_def opt_str_def or_str_def

theorem extract_manga_list_skips_unlinked_witness:
  "example_crawler (Some list_run_config) (PStr ''list'') = Some example_list_page
   \<and> length (manga_elements example_list_page) = 3
   \<and> length (filter no_anchor (manga_elements example_list_page)) = 1
   \<and> length (snd (extract_manga_list ''list'' example_crawler)) = 2"
proof -
  have c: "example_crawler (Some list_run_config) (PStr ''list'') = Some example_list_page"
    by (simp add: example_crawler_def)
  have three: "length (manga_elements example_list_page) = 3"
    by (simp add: example_simps)
  have one: "length (filter no_anchor (manga_elements example_list_page)) = 1"
    by (simp add: example_simps)
  have two: "length (snd (extract_manga_list ''list'' example_crawler)) = 2"
    using extract_manga_list_skips_unlinked [of example_crawler "''list''"] c three one
    by blast
  from c three one two show ?thesis by blast
qed

lemma stubs_of_mem:
  "item \<in> set (stubs_of els) \<Longrightarrow> \<exists>m\<in>set els. stub_of m = Some item"
  by (induction els) (auto split: option.splits)

lemma title_element_of_link:
  assumes "link_element manga = Some l"
  shows "\<exists>t. title_element manga = Some t
           \<and> (t \<in> set (select manga ''.manga-detail h3.manga-name a'')
              \<or> t \<in> set (select manga ''.detail h3 a'') \<or> t = l)"
  using assms
  by (auto simp: title_element_def or_else_def select_one_def split: option.splits list.splits)

text \<open>
  C10. For every stub that \<open>extract_manga_list\<close> returns there is an item node of the
  page whose link element is found, and for that node the title element is found too: it
  is a match of one of the two title selectors or the link element itself. The title of
  the stub is the stripped text of that element, so the branch that stores
  \<open>Unknown Title\<close> is never taken for a returned stub.
\<close>

theorem unknown_title_unreachable:
  assumes "item \<in> set (snd (extract_manga_list url crawler))"
  shows "\<exists>soup manga l t.
           crawler (Some list_run_config) (PStr url) = Some soup
         \<and> manga \<in> set (manga_elements soup)
         \<and> link_element manga = Some l
         \<and> title_element manga = Some t
         \<and> (t \<in> set (select manga ''.manga-detail h3.manga-name a'')
            \<or> t \<in> set (select manga ''.detail h3 a'') \<or> t = l)
         \<and> dict_get item ''title'' = Some (PStr (strip (ntext t)))"
proof -
  from assms obtain soup where
    c: "crawler (Some list_run_config) (PStr url) = Some soup" and
    mem: "item \<in> set (stubs_of (manga_elements soup))"
    by (cases "crawler (Some list_run_config) (PStr url)") (auto simp: snd_extract_manga_list)
  from stubs_of_mem [OF mem] obtain manga where
    m: "manga \<in> set (manga_elements soup)" and s: "stub_of manga = Some item"
    by blast
  from s obtain l where l: "link_element manga = Some l"
    by (auto simp: stub_of_def split: option.splits)
  from title_element_of_link [OF l] obtain t where
    t: "title_element manga = Some t"
       "t \<in> set (select manga ''.manga-detail h3.manga-name a'')
        \<or> t \<in> set (select manga ''.detail h3 a'') \<or> t = l"
    by blast
  from s l t have "dict_get item ''title'' = Some (PStr (strip (ntext t)))"
    by (auto simp: stub_of_def title_of_def dict_get_def)
  with c m l t show ?thesis by blast
qed

lemma ex_stubs: "snd (extract_manga_list ''list'' example_crawler) =
  [[(''title'', PStr ''Alpha''), (''url'', PStr ''https://mangareader.to/alpha''), (''cover_url'', PNone)],
   [(''title'', PStr ''Gamma''), (''url'', PStr ''https://x.test/gamma''), (''cover_url'', PNone)]]"
  by (simp add: snd_extract_manga_list example_simps)

theorem unknown_title_unreachable_witness:
  "[(''title'', PStr ''Alpha''), (''url'', PStr ''https://mangareader.to/alpha''), (''cover_url'', PNone)]
     \<in> set (snd (extract_manga_list ''list'' example_crawler))
   \<and> (\<exists>manga t. manga \<in> set (manga_elements example_list_page)
         \<and> title_element manga = Some t
         \<and> strip (ntext t) = ''Alpha'')"
proof -
  have mem: "[(''title'', PStr ''Alpha''), (''url'', PStr ''https://mangareader.to/alpha''), (''cover_url'', PNone)]
     \<in> set (snd (extract_manga_list ''list'' example_crawler))"
    by (simp add: ex_stubs)
  have c: "example_crawler (Some list_run_config) (PStr ''list'') = Some example_list_page"
    by (simp add: example_crawler_def)
  from unknown_title_unreachable [OF mem] c mem show ?thesis
    by (auto simp: dict_get_def)
qed

section \<open>Properties of filter_navigation_links\<close>

lemma contains_iff: "contains s needle \<longleftrightarrow> (\<exists>pre post. s = pre @ needle @ post)"
proof (induction s)
  case Nil
  show ?case by auto
next
  case (Cons c cs)
  show ?case
  proof
    assume "contains (c # cs) needle"
    then consider "prefix needle (c # cs)" | "contains cs needle" by auto
    then show "\<exists>pre post. c # cs = pre @ needle @ post"
    proof cases
      case 1
      then obtain post where "c # cs = needle @ post" by (auto simp: prefix_def)
      then have "c # cs = [] @ needle @ post" by simp
      then show ?thesis by blast
    next
      case 2
      with Cons obtain pre post where "cs = pre @ needle @ post" by blast
      then have "c # cs = (c # pre) @ needle @ post" by simp
      then show ?thesis by blast
    qed
  next
    assume "\<exists>pre post. c # cs = pre @ needle @ post"
    then obtain pre post where eq: "c # cs = pre @ needle @ post" by blast
    show "contains (c # cs) needle"
    proof (cases pre)
      case Nil
      with eq have "prefix needle (c # cs)" by (simp add: prefix_def)
      then show ?thesis by simp
    next
      case (Cons p ps)
      with eq have "cs = ps @ needle @ post" by simp
      with Cons.IH have "contains cs needle" by blast
      then show ?thesis by simp
    qed
  qed
qed

lemma is_navigation_str:
  "str_url_items [item] \<Longrightarrow> is_navigation item = Inr (navigational item)"
  by (cases item) (auto simp: str_url_items_def navigational_def split: option.splits)

lemma filter_items_str:
  "str_url_items items \<Longrightarrow> filter_items items = Inr (filter (\<lambda>i. \<not> navigational i) items)"
proof (induction items)
  case Nil
  show ?case by simp
next
  case (Cons item items)
  have 1: "str_url_items [item]" and 2: "str_url_items items"
    using Cons.prems by (auto simp: str_url_items_def)
  show ?case using Cons.IH [OF 2] is_navigation_str [OF 1] by simp
qed

text \<open>
  On a list in which every \<open>url\<close> value is a string, the filter returns a list: the
  entries that are not dicts with a \<open>url\<close> containing \<open>az-list\<close>, unchanged and in their
  order. Entries without a \<open>url\<close> key and entries that are not dicts are kept.
\<close>

theorem filter_navigation_links_string_urls:
  assumes "str_url_items items"
  shows "filter_navigation_links (PList items) = Inr (PList (filter (\<lambda>i. \<not> navigational i) items))
       \<and> (\<forall>i. navigational i \<longleftrightarrow>
             (\<exists>d pre post. i = PDict d \<and> dict_get d ''url'' = Some (PStr (pre @ ''az-list'' @ post))))"
  using assms by (auto simp: filter_items_str navigational_def contains_iff)

theorem filter_navigation_links_string_urls_witness:
  "str_url_items [PDict [(''url'', PStr ''https://mangareader.to/az-list?page=2'')],
                  PDict [(''title'', PStr ''no url'')], PStr ''x'',
                  PDict [(''url'', PStr ''https://mangareader.to/one-piece-3'')]]
   \<and> filter_navigation_links
        (PList [PDict [(''url'', PStr ''https://mangareader.to/az-list?page=2'')],
                PDict [(''title'', PStr ''no url'')], PStr ''x'',
                PDict [(''url'', PStr ''https://mangareader.to/one-piece-3'')]])
      = Inr (PList [PDict [(''title'', PStr ''no url'')], PStr ''x'',
                    PDict [(''url'', PStr ''https://mangareader.to/one-piece-3'')]])"
proof -
  let ?items = "[PDict [(''url'', PStr ''https://mangareader.to/az-list?page=2'')],
                  PDict [(''title'', PStr ''no url'')], PStr ''x'',
                  PDict [(''url'', PStr ''https://mangareader.to/one-piece-3'')]]"
  have h: "str_url_items ?items"
    by (auto simp: str_url_items_def dict_get_def)
  have n1: "navigational (PDict [(''url'', PStr ''https://mangareader.to/az-list?page=2'')])"
    by (simp add: navigational_def dict_get_def)
  have n2: "\<not> navigational (PDict [(''title'', PStr ''no url'')])"
    by (simp add: navigational_def dict_get_def)
  have n3: "\<not> navigational (PStr ''x'')"
    by (simp add: navigational_def)
  have n4: "\<not> navigational (PDict [(''url'', PStr ''https://mangareader.to/one-piece-3'')])"
    by (simp add: navigational_def dict_get_def)
  from filter_navigation_links_string_urls [OF h] h n1 n2 n3 n4 show ?thesis by simp
qed

lemmas example_simps2 =
  nohref_crawler_def nohref_page_def manga_elements_def select_def
  select_one_def find_tag_def or_else_def or_list_def link_element_def
  title_element_def title_of_def stub_of_def manga_url_of_def cover_url_of_def attr_get_def
  startswith_def strip_def py_isspace_def BASE_URL_def opt_str_def or_str_def

lemma upt_first: "[595..<MAX_PAGES + 1] = 595 # [596..<MAX_PAGES + 1]"
  by (simp add: MAX_PAGES_def upt_conv_Cons)

lemma process_page_filter_error:
  assumes "filter_navigation_links
             (PList (map PDict (snd (extract_manga_list (page_url p) crawler)))) = Inl e"
  shows "snd (snd (process_page env crawler p fs)) = Inl e"
proof -
  obtain ev1 stubs where x: "extract_manga_list (page_url p) crawler = (ev1, stubs)"
    by (cases "extract_manga_list (page_url p) crawler")
  with assms have "filter_navigation_links (PList (map PDict stubs)) = Inl e" by simp
  with x show ?thesis by (simp add: process_page_def)
qed

lemma main_pages_first_error:
  assumes "snd (snd (process_page env crawler p fs)) = Inl e"
  shows "snd (snd (main_pages env crawler (p # ps) fs ml)) = Inl e"
proof -
  obtain ev fs' r where x: "process_page env crawler p fs = (ev, fs', r)"
    by (cases "process_page env crawler p fs")
  with assms have "r = Inl e" by simp
  with x show ?thesis by simp
qed

lemma main_run_pages_error:
  assumes "snd (snd (main_pages env crawler [595..<MAX_PAGES + 1] fs [])) = Inl e"
  shows "snd (snd (main_run env crawler fs)) = Inl e"
proof -
  obtain ev fs' r where x: "main_pages env crawler [595..<MAX_PAGES + 1] fs [] = (ev, fs', r)"
    by (cases "main_pages env crawler [595..<MAX_PAGES + 1] fs []")
  with assms have "r = Inl e" by simp
  with x show ?thesis by (simp add: main_run_def)
qed

text \<open>
  C5. The filter is meant to let every entry pass that has no \<open>az-list\<close> in its URL.
  It does not on a stub whose \<open>url\<close> is \<^verbatim>\<open>None\<close>, which \<open>extract_manga_list\<close>
  produces for an anchor without \<open>href\<close>: the test \<^verbatim>\<open>"az-list" in item["url"]\<close> raises
  TypeError, nothing is returned, and since \<open>main\<close> does not catch the exception the run
  ends there.
\<close>

theorem filter_navigation_links_raises_on_missing_href:
  "snd (extract_manga_list (page_url 595) nohref_crawler)
     = [[(''title'', PStr ''T''), (''url'', PNone), (''cover_url'', PNone)]]
   \<and> filter_navigation_links
        (PList [PDict [(''title'', PStr ''T''), (''url'', PNone), (''cover_url'', PNone)]])
      = Inl TypeError
   \<and> snd (snd (main_run example_env nohref_crawler [])) = Inl TypeError"
proof -
  have a: "snd (extract_manga_list (page_url 595) nohref_crawler)
     = [[(''title'', PStr ''T''), (''url'', PNone), (''cover_url'', PNone)]]"
    by (simp add: snd_extract_manga_list example_simps2)
  have b: "filter_navigation_links
        (PList [PDict [(''title'', PStr ''T''), (''url'', PNone), (''cover_url'', PNone)]])
      = Inl TypeError"
    by (simp add: dict_get_def)
  have "snd (snd (process_page example_env nohref_crawler 595 [])) = Inl TypeError"
    by (rule process_page_filter_error) (simp only: a list.map b)
  then have "snd (snd (main_pages example_env nohref_crawler [595..<MAX_PAGES + 1] [] []))
             = Inl TypeError"
    unfolding upt_first by (rule main_pages_first_error)
  then have c: "snd (snd (main_run example_env nohref_crawler [])) = Inl TypeError"
    by (rule main_run_pages_error)
  from a b c show ?thesis by blast
qed

section \<open>Properties of extract_manga_details\<close>

lemma dict_get_set: "dict_get (dict_set d k v) k' = (if k' = k then Some v else dict_get d k')"
  by (simp add: dict_get_def dict_set_def update_conv')

lemma dict_set_set: "dict_set (dict_set d k v) k v' = dict_set d k v'"
  by (simp add: dict_set_def)

lemma truthy_texts_of: "truthy (texts_of els) \<longleftrightarrow> els \<noteq> []"
  by (simp add: texts_of_def)

lemma texts_of_Nil: "texts_of [] = PList []"
  by (simp add: texts_of_def)

lemma first_match_Nil: "first_match soup [] = []"
  by (simp add: first_match_def)

lemma first_match_Cons:
  "first_match soup (sel # sels) =
     (if select soup sel \<noteq> [] then select soup sel else first_match soup sels)"
  by (simp add: first_match_def)

lemma first_match_empty_iff:
  "first_match soup sels = [] \<longleftrightarrow> (\<forall>sel\<in>set sels. select soup sel = [])"
  by (induction sels) (auto simp: first_match_Nil first_match_Cons)

lemma genres_alternative_primary:
  "genres_alternative soup (genres_primary soup md) =
     Inr (dict_set md ''genres''
            (texts_of (first_match soup
               [''div.container div.detail-info div.genres a'',
                ''.genres-content .genres-button'', ''.genres a''])))"
  by (simp add: genres_alternative_def genres_primary_def not_genres_def dict_get_set Let_def
      truthy_texts_of texts_of_Nil dict_set_set first_match_Cons first_match_Nil or_list_def)

lemma broader_loop_eq:
  "broader_loop soup (dict_set md ''genres'' (PList [])) sels =
     dict_set md ''genres'' (texts_of (first_match soup sels))"
  by (induction sels)
     (simp_all add: first_match_Nil first_match_Cons texts_of_Nil dict_set_set Let_def)

lemma genres_broader_eq:
  "genres_broader soup (dict_set md ''genres'' (texts_of els)) =
     Inr (dict_set md ''genres''
            (texts_of (if els \<noteq> [] then els else first_match soup broader_selectors)))"
  using broader_loop_eq [of soup md broader_selectors]
  by (auto simp: genres_broader_def not_genres_def dict_get_set truthy_texts_of texts_of_Nil)

lemma genres_default_eq:
  "genres_default (dict_set md ''genres'' (texts_of els)) =
     (if els \<noteq> [] then ([], Inr (dict_set md ''genres'' (texts_of els)))
      else case dict_get md ''title'' of
             None \<Rightarrow> ([], Inl KeyError)
           | Some t \<Rightarrow> ([Print (NoGenresFound t)], Inr (dict_set md ''genres'' (PList []))))"
  by (auto simp: genres_default_def not_genres_def dict_get_set truthy_texts_of texts_of_Nil
      dict_set_set Let_def split: option.splits)

lemma first_match_genre_selectors:
  "first_match soup genre_selectors =
     (if first_match soup [''div.container div.detail-info div.genres a'',
                           ''.genres-content .genres-button'', ''.genres a''] \<noteq> []
      then first_match soup [''div.container div.detail-info div.genres a'',
                             ''.genres-content .genres-button'', ''.genres a'']
      else first_match soup broader_selectors)"
  by (simp add: genre_selectors_def first_match_Cons first_match_Nil)

lemma genres_steps:
  "genres_alternative soup (genres_primary soup md) = Inr md2 \<Longrightarrow>
   genres_broader soup md2 =
     Inr (dict_set md ''genres'' (texts_of (first_match soup genre_selectors)))"
  unfolding genres_alternative_primary first_match_genre_selectors
  by (auto simp: genres_broader_eq)

lemma not_digit_dot: "\<not> is_digit CHR ''.''"
  by (simp add: is_digit_def)

lemma takeWhile_all: "list_all P xs \<Longrightarrow> takeWhile P xs = xs"
  by (induction xs) auto

lemma dropWhile_all: "list_all P xs \<Longrightarrow> dropWhile P xs = []"
  by (induction xs) auto

lemma list_all_takeWhile: "list_all P (takeWhile P xs)"
  by (induction xs) auto

lemma dropWhile_head: "dropWhile P xs = y # ys \<Longrightarrow> \<not> P y"
  by (metis hd_dropWhile list.sel(1) list.distinct(1))

lemma py_float_int: 
  assumes "ip \<noteq> []" "list_all is_digit ip"
  shows "py_float ip = Inr (decimal_value ip [])"
  using assms by (simp add: py_float_def takeWhile_all dropWhile_all decimal_value_def)

lemma py_float_frac: 
  assumes "ip \<noteq> []" "list_all is_digit ip" "list_all is_digit fp"
  shows "py_float (ip @ ''.'' @ fp) = Inr (decimal_value ip fp)"
proof -
  have all: "\<forall>c\<in>set ip. is_digit c" using assms(2) by (simp add: list_all_iff)
  have t: "takeWhile is_digit (ip @ CHR ''.'' # fp) = ip"
    using all by (simp add: takeWhile_append2 not_digit_dot)
  have d: "dropWhile is_digit (ip @ CHR ''.'' # fp) = CHR ''.'' # fp"
    using all by (simp add: dropWhile_append2 not_digit_dot)
  have "py_float (ip @ CHR ''.'' # fp) = Inr (decimal_value ip fp)"
    unfolding py_float_def Let_def t d
    using assms(1,3) by (simp add: decimal_value_def)
  then show ?thesis by simp
qed

lemma match_decimal_at_shape:
  assumes "s \<noteq> []" "is_digit (hd s)"
  shows "\<exists>ip dot fp post. s = ip @ dot @ fp @ post \<and> match_decimal_at s = ip @ dot @ fp
           \<and> ip \<noteq> [] \<and> list_all is_digit ip \<and> list_all is_digit fp
           \<and> (dot = [] \<or> dot = ''.'')
           \<and> (dot = [] \<longrightarrow> fp = [] \<and> (post = [] \<or> hd post \<noteq> CHR ''.''))
           \<and> (post = [] \<or> \<not> is_digit (hd post))"
proof -
  let ?ip = "takeWhile is_digit s"
  let ?r = "dropWhile is_digit s"
  have s: "s = ?ip @ ?r" by simp
  have ip: "?ip \<noteq> []" "list_all is_digit ?ip"
    using assms by (cases s) (auto simp: list_all_takeWhile)
  show ?thesis
  proof (cases ?r)
    case Nil
    have m: "match_decimal_at s = ?ip"
      unfolding match_decimal_at_def Let_def Nil by simp
    have "s = ?ip @ [] @ [] @ []" using s Nil by simp
    with m ip show ?thesis
      by (intro exI [of _ ?ip] exI [of _ "[]"]) simp
  next
    case (Cons c r')
    then have nd: "\<not> is_digit c" by (rule dropWhile_head)
    show ?thesis
    proof (cases "c = CHR ''.''")
      case False
      then have "match_decimal_at s = ?ip"
        unfolding match_decimal_at_def Let_def Cons by simp
      moreover have "s = ?ip @ [] @ [] @ (c # r')" using s Cons by simp
      ultimately show ?thesis using ip nd False
        by (intro exI [of _ ?ip] exI [of _ "[]"] exI [of _ "c # r'"]) simp
    next
      case True
      let ?fp = "takeWhile is_digit r'"
      let ?post = "dropWhile is_digit r'"
      have m: "match_decimal_at s = ?ip @ ''.'' @ ?fp"
        unfolding match_decimal_at_def Let_def Cons using True by simp
      have "s = ?ip @ ''.'' @ ?fp @ ?post"
        using Cons True by (metis append_Cons append_Nil s takeWhile_dropWhile_id)
      moreover have "?post = [] \<or> \<not> is_digit (hd ?post)"
        by (metis hd_dropWhile)
      ultimately show ?thesis using m ip
        by (intro exI [of _ ?ip] exI [of _ "''.''"] exI [of _ ?fp] exI [of _ ?post])
           (simp add: list_all_takeWhile)
    qed
  qed
qed

lemma re_search_decimal_None_iff:
  "re_search_decimal text = None \<longleftrightarrow> (\<forall>c\<in>set text. \<not> is_digit c)"
  by (induction "text") auto

lemma re_search_decimal_first:
  assumes "\<exists>c\<in>set text. is_digit c"
  shows "\<exists>ip dot fp. first_decimal text ip dot fp
           \<and> re_search_decimal text = Some (ip @ dot @ fp)
           \<and> py_float (ip @ dot @ fp) = Inr (decimal_value ip fp)"
  using assms
proof (induction "text")
  case Nil
  then show ?case by simp
next
  case (Cons c cs)
  show ?case
  proof (cases "is_digit c")
    case True
    have ne: "c # cs \<noteq> []" by simp
    have hd: "is_digit (hd (c # cs))" using True by simp
    from match_decimal_at_shape [OF ne hd] obtain ip dot fp post where
      sh: "c # cs = ip @ dot @ fp @ post" "match_decimal_at (c # cs) = ip @ dot @ fp"
          "ip \<noteq> []" "list_all is_digit ip" "list_all is_digit fp"
          "dot = [] \<or> dot = ''.''"
          "dot = [] \<longrightarrow> fp = [] \<and> (post = [] \<or> hd post \<noteq> CHR ''.'')"
          "post = [] \<or> \<not> is_digit (hd post)"
      by blast
    have fd: "first_decimal (c # cs) ip dot fp"
      unfolding first_decimal_def
      using sh by (intro exI [of _ "[]"] exI [of _ post]) simp
    have fl: "py_float (ip @ dot @ fp) = Inr (decimal_value ip fp)"
      using sh(3-7) py_float_int [of ip] py_float_frac [of ip fp] by auto
    from True sh(2) fd fl show ?thesis by auto
  next
    case False
    with Cons.prems have "\<exists>c\<in>set cs. is_digit c" by auto
    from Cons.IH [OF this] obtain ip dot fp where
      ih: "first_decimal cs ip dot fp" "re_search_decimal cs = Some (ip @ dot @ fp)"
          "py_float (ip @ dot @ fp) = Inr (decimal_value ip fp)"
      by blast
    from ih(1) obtain pre post where
      p: "cs = pre @ ip @ dot @ fp @ post" "\<forall>c\<in>set pre. \<not> is_digit c"
         "ip \<noteq> []" "list_all is_digit ip" "list_all is_digit fp"
         "dot = [] \<or> dot = ''.''"
         "dot = [] \<longrightarrow> fp = [] \<and> (post = [] \<or> hd post \<noteq> CHR ''.'')"
         "post = [] \<or> \<not> is_digit (hd post)"
      unfolding first_decimal_def by blast
    have "first_decimal (c # cs) ip dot fp"
      unfolding first_decimal_def
      using p False by (intro exI [of _ "c # pre"] exI [of _ post]) simp
    with ih False show ?thesis by auto
  qed
qed

lemma decimal_value_nonneg: "0 \<le> decimal_value ip fp"
  by (simp add: decimal_value_def)

lemma digit_not_space: "is_digit c \<Longrightarrow> \<not> py_isspace c"
  by (auto simp: is_digit_def py_isspace_def)

lemma set_dropWhile_keep: "c \<in> set xs \<Longrightarrow> \<not> P c \<Longrightarrow> c \<in> set (dropWhile P xs)"
  by (induction xs) auto

lemma digit_in_strip: "(\<exists>c\<in>set (strip text). is_digit c) \<longleftrightarrow> (\<exists>c\<in>set text. is_digit c)"
proof
  assume "\<exists>c\<in>set (strip text). is_digit c"
  then obtain c where "c \<in> set (strip text)" "is_digit c" by blast
  then have "c \<in> set text"
    unfolding strip_def by (metis set_dropWhileD set_rev)
  with \<open>is_digit c\<close> show "\<exists>c\<in>set text. is_digit c" by blast
next
  assume "\<exists>c\<in>set text. is_digit c"
  then obtain c where c: "c \<in> set text" "is_digit c" by blast
  then have "c \<in> set (dropWhile py_isspace text)"
    by (simp add: set_dropWhile_keep digit_not_space)
  then have "c \<in> set (dropWhile py_isspace (rev (dropWhile py_isspace text)))"
    using c(2) by (simp add: set_dropWhile_keep digit_not_space)
  then show "\<exists>c\<in>set (strip text). is_digit c"
    using c(2) unfolding strip_def by auto
qed

lemma rating_of_text_no_digit:
  "\<forall>c\<in>set text. \<not> is_digit c \<Longrightarrow> rating_of_text text = Inr PNone"
  using digit_in_strip [of "text"] re_search_decimal_None_iff [of "strip text"]
  by (auto simp: rating_of_text_def)

lemma rating_of_text_digit:
  assumes "\<exists>c\<in>set text. is_digit c"
  shows "\<exists>ip dot fp. first_decimal (strip text) ip dot fp
           \<and> rating_of_text text = Inr (PFloat (decimal_value ip fp))"
proof -
  from assms have "\<exists>c\<in>set (strip text). is_digit c" by (simp add: digit_in_strip)
  from re_search_decimal_first [OF this] obtain ip dot fp where
    f: "first_decimal (strip text) ip dot fp"
       "re_search_decimal (strip text) = Some (ip @ dot @ fp)"
       "py_float (ip @ dot @ fp) = Inr (decimal_value ip fp)"
    by blast
  then have "rating_of_text text = Inr (PFloat (decimal_value ip fp))"
    by (simp add: rating_of_text_def)
  with f(1) show ?thesis by blast
qed

lemma rating_of_text_total: "\<exists>v. rating_of_text text = Inr v"
  using rating_of_text_no_digit [of "text"] rating_of_text_digit [of "text"] by blast

lemma rating_of_text_nonneg: "rating_of_text text = Inr (PFloat r) \<Longrightarrow> 0 \<le> r"
  using rating_of_text_no_digit [of "text"] rating_of_text_digit [of "text"]
  by (cases "\<exists>c\<in>set text. is_digit c") (auto simp: decimal_value_nonneg)

lemma extract_rating_total: "\<exists>v. extract_rating soup = Inr v"
  using rating_of_text_total by (auto simp: extract_rating_def split: option.splits)

lemma title_after_author_synopsis:
  "dict_get (set_author soup (set_synopsis soup basic)) ''title'' = dict_get basic ''title''"
  by (simp add: set_author_def set_synopsis_def dict_get_set)

lemma details_body_eq:
  assumes "extract_rating soup = Inr v"
  shows "details_body soup basic =
     (let md0 = set_author soup (set_synopsis soup basic);
          found = first_match soup genre_selectors
      in if found = [] \<and> dict_get basic ''title'' = None then ([], Inl KeyError)
         else (if found = [] then [Print (NoGenresFound (the (dict_get basic ''title'')))] else [],
               Inr (set_status soup
                      (dict_set (set_cover soup (dict_set md0 ''genres'' (texts_of found)))
                         ''rating'' v))))"
proof -
  let ?md0 = "set_author soup (set_synopsis soup basic)"
  let ?found = "first_match soup genre_selectors"
  let ?chain3 = "first_match soup [''div.container div.detail-info div.genres a'',
                                   ''.genres-content .genres-button'', ''.genres a'']"
  have a: "genres_alternative soup (genres_primary soup ?md0)
             = Inr (dict_set ?md0 ''genres'' (texts_of ?chain3))"
    by (rule genres_alternative_primary)
  have b: "genres_broader soup (dict_set ?md0 ''genres'' (texts_of ?chain3))
             = Inr (dict_set ?md0 ''genres'' (texts_of ?found))"
    using a by (rule genres_steps)
  have c: "genres_default (dict_set ?md0 ''genres'' (texts_of ?found)) =
     (if ?found \<noteq> [] then ([], Inr (dict_set ?md0 ''genres'' (texts_of ?found)))
      else case dict_get basic ''title'' of
             None \<Rightarrow> ([], Inl KeyError)
           | Some t \<Rightarrow> ([Print (NoGenresFound t)], Inr (dict_set ?md0 ''genres'' (PList []))))"
    by (simp only: genres_default_eq title_after_author_synopsis)
  show ?thesis
    unfolding details_body_def Let_def a b c sum.case
    using assms
    by (auto simp: set_rating_def texts_of_Nil split: option.splits)
qed

lemma dict_get_set_cover:
  "k \<noteq> ''cover_image'' \<Longrightarrow> dict_get (set_cover soup md) k = dict_get md k"
  by (simp add: set_cover_def dict_get_set split: option.splits)

lemma dict_get_set_status:
  "k \<noteq> ''status'' \<Longrightarrow> dict_get (set_status soup md) k = dict_get md k"
  by (simp add: set_status_def dict_get_set)

lemma extract_manga_details_failed:
  assumes "crawler None url = None"
  shows "extract_manga_details url basic crawler =
     ([Print (ExtractingDetails
         (case dict_get basic ''title'' of Some t \<Rightarrow> t | None \<Rightarrow> PStr ''Unknown'')),
       FetchDetail url, Print (ErrorExtractingDetails url)],
      dict_set basic ''genres'' (PList []))"
  using assms by (simp add: extract_manga_details_def details_failed_def)

lemma extract_manga_details_genres:
  assumes "crawler None url = Some soup"
  shows "dict_get (snd (extract_manga_details url basic crawler)) ''genres''
           = Some (texts_of (first_match soup genre_selectors))"
proof -
  obtain v where v: "extract_rating soup = Inr v"
    using extract_rating_total by blast
  show ?thesis
    using assms
    by (simp add: extract_manga_details_def details_body_eq [OF v] Let_def details_failed_def
        dict_get_set dict_get_set_cover dict_get_set_status texts_of_Nil)
qed

lemma extract_manga_details_log:
  assumes "crawler None url = Some soup" "dict_get basic ''title'' = Some t"
  shows "fst (extract_manga_details url basic crawler) =
           [Print (ExtractingDetails t), FetchDetail url]
           @ (if first_match soup genre_selectors = [] then [Print (NoGenresFound t)] else [])"
proof -
  obtain v where v: "extract_rating soup = Inr v"
    using extract_rating_total by blast
  show ?thesis
    using assms
    by (simp add: extract_manga_details_def details_body_eq [OF v] Let_def)
qed

lemma extract_manga_details_rating:
  assumes "crawler None url = Some soup" "dict_get basic ''title'' = Some t"
          "extract_rating soup = Inr v"
  shows "dict_get (snd (extract_manga_details url basic crawler)) ''rating'' = Some v"
  using assms
  by (simp add: extract_manga_details_def details_body_eq [OF assms(3)] Let_def
      dict_get_set dict_get_set_status)

text \<open>
  C4. When the detail document is fetched, the \<open>genres\<close> field of the record is a list:
  the stripped texts of the matches of the first genre selector, in the order primary,
  first alternative group, second alternative group, that matches anything. When none
  matches the field is the empty list, and for a stub with a title the line
  \<open>No genres found\<close> is printed; when one matches that line is not printed.
\<close>

theorem genres_first_matching_chain:
  assumes "crawler None url = Some soup"
  shows "dict_get (snd (extract_manga_details url basic crawler)) ''genres''
           = Some (texts_of (first_match soup genre_selectors))
       \<and> ((\<forall>sel\<in>set genre_selectors. select soup sel = []) \<longrightarrow>
            dict_get (snd (extract_manga_details url basic crawler)) ''genres'' = Some (PList [])
          \<and> (\<forall>t. dict_get basic ''title'' = Some t \<longrightarrow>
                Print (NoGenresFound t) \<in> set (fst (extract_manga_details url basic crawler))))
       \<and> ((\<exists>sel\<in>set genre_selectors. select soup sel \<noteq> []) \<longrightarrow>
            (\<forall>t. dict_get basic ''title'' = Some t \<longrightarrow>
                Print (NoGenresFound t) \<notin> set (fst (extract_manga_details url basic crawler))))"
proof (intro conjI impI allI)
  show g: "dict_get (snd (extract_manga_details url basic crawler)) ''genres''
           = Some (texts_of (first_match soup genre_selectors))"
    using assms by (rule extract_manga_details_genres)
  {
    assume none: "\<forall>sel\<in>set genre_selectors. select soup sel = []"
    then have e: "first_match soup genre_selectors = []"
      by (simp add: first_match_empty_iff)
    with g show "dict_get (snd (extract_manga_details url basic crawler)) ''genres''
                   = Some (PList [])"
      by (simp add: texts_of_Nil)
    fix t assume "dict_get basic ''title'' = Some t"
    from extract_manga_details_log [of crawler url soup basic t, OF assms this] e
    show "Print (NoGenresFound t) \<in> set (fst (extract_manga_details url basic crawler))"
      by simp
  }
  {
    fix t
    assume some: "\<exists>sel\<in>set genre_selectors. select soup sel \<noteq> []"
       and t: "dict_get basic ''title'' = Some t"
    from some have "first_match soup genre_selectors \<noteq> []"
      by (simp add: first_match_empty_iff)
    with extract_manga_details_log [of crawler url soup basic t, OF assms t]
    show "Print (NoGenresFound t) \<notin> set (fst (extract_manga_details url basic crawler))"
      by simp
  }
qed

lemma extract_rating_nonneg: "extract_rating soup = Inr (PFloat r) \<Longrightarrow> 0 \<le> r"
  using rating_of_text_nonneg by (auto simp: extract_rating_def split: option.splits)

lemmas rating_eval =
  rating_of_text_def strip_def py_isspace_def is_digit_def match_decimal_at_def py_float_def
  nat_of_digits_def digit_val_def

lemma takeWhile_dropWhile_split:
  assumes "list_all P xs" "ys = [] \<or> \<not> P (hd ys)"
  shows "takeWhile P (xs @ ys) = xs \<and> dropWhile P (xs @ ys) = ys"
  using assms by (induction xs) (auto simp: takeWhile_eq_Nil_iff dropWhile_eq_self_iff)

lemma first_decimal_unique:
  assumes "first_decimal t ip dot fp" "first_decimal t ip' dot' fp'"
  shows "ip = ip' \<and> dot = dot' \<and> fp = fp'"
proof -
  from assms(1) obtain pre post where
    a: "t = pre @ ip @ dot @ fp @ post" "\<forall>c\<in>set pre. \<not> is_digit c"
       "ip \<noteq> []" "list_all is_digit ip" "list_all is_digit fp"
       "dot = [] \<or> dot = ''.''"
       "dot = [] \<longrightarrow> fp = [] \<and> (post = [] \<or> hd post \<noteq> CHR ''.'')"
       "post = [] \<or> \<not> is_digit (hd post)"
    unfolding first_decimal_def by blast
  from assms(2) obtain pre' post' where
    b: "t = pre' @ ip' @ dot' @ fp' @ post'" "\<forall>c\<in>set pre'. \<not> is_digit c"
       "ip' \<noteq> []" "list_all is_digit ip'" "list_all is_digit fp'"
       "dot' = [] \<or> dot' = ''.''"
       "dot' = [] \<longrightarrow> fp' = [] \<and> (post' = [] \<or> hd post' \<noteq> CHR ''.'')"
       "post' = [] \<or> \<not> is_digit (hd post')"
    unfolding first_decimal_def by blast
  let ?nd = "\<lambda>c. \<not> is_digit c"
  have hd_ip: "is_digit (hd ip)" using a(3,4) by (cases ip) simp_all
  have hd_ip': "is_digit (hd ip')" using b(3,4) by (cases ip') simp_all
  have "dropWhile ?nd (pre @ (ip @ dot @ fp @ post)) = ip @ dot @ fp @ post"
    using takeWhile_dropWhile_split [of ?nd pre "ip @ dot @ fp @ post"] a(2,3) hd_ip
    by (simp add: list_all_iff)
  moreover have "dropWhile ?nd (pre' @ (ip' @ dot' @ fp' @ post')) = ip' @ dot' @ fp' @ post'"
    using takeWhile_dropWhile_split [of ?nd pre' "ip' @ dot' @ fp' @ post'"] b(2,3) hd_ip'
    by (simp add: list_all_iff)
  ultimately have r: "ip @ dot @ fp @ post = ip' @ dot' @ fp' @ post'"
    using a(1) b(1) by simp
  have t1: "dot @ fp @ post = [] \<or> \<not> is_digit (hd (dot @ fp @ post))"
    using a(6,7,8) by (auto simp: not_digit_dot)
  have t2: "dot' @ fp' @ post' = [] \<or> \<not> is_digit (hd (dot' @ fp' @ post'))"
    using b(6,7,8) by (auto simp: not_digit_dot)
  have s1: "takeWhile is_digit (ip @ (dot @ fp @ post)) = ip
          \<and> dropWhile is_digit (ip @ (dot @ fp @ post)) = dot @ fp @ post"
    using a(4) t1 by (rule takeWhile_dropWhile_split)
  have s2: "takeWhile is_digit (ip' @ (dot' @ fp' @ post')) = ip'
          \<and> dropWhile is_digit (ip' @ (dot' @ fp' @ post')) = dot' @ fp' @ post'"
    using b(4) t2 by (rule takeWhile_dropWhile_split)
  have ip: "ip = ip'"
  proof -
    have "takeWhile is_digit (ip @ dot @ fp @ post) = ip" using s1 by (rule conjunct1)
    then have "ip = takeWhile is_digit (ip @ dot @ fp @ post)" by (rule sym)
    also have "\<dots> = takeWhile is_digit (ip' @ dot' @ fp' @ post')" by (simp only: r)
    also have "\<dots> = ip'" using s2 by (rule conjunct1)
    finally show ?thesis .
  qed
  have r2: "dot @ fp @ post = dot' @ fp' @ post'"
  proof -
    have "dropWhile is_digit (ip @ dot @ fp @ post) = dot @ fp @ post"
      using s1 by (rule conjunct2)
    then have "dot @ fp @ post = dropWhile is_digit (ip @ dot @ fp @ post)" by (rule sym)
    also have "\<dots> = dropWhile is_digit (ip' @ dot' @ fp' @ post')" by (simp only: r)
    also have "\<dots> = dot' @ fp' @ post'" using s2 by (rule conjunct2)
    finally show ?thesis .
  qed
  have dot: "dot = dot'"
  proof (rule ccontr)
    assume "dot \<noteq> dot'"
    with a(6) b(6) consider "dot = []" "dot' = ''.''" | "dot = ''.''" "dot' = []" by auto
    then show False
    proof cases
      case 1
      with a(7) r2 show False by auto
    next
      case 2
      with b(7) r2 show False by auto
    qed
  qed
  have fp: "fp = fp'"
  proof (cases "dot = []")
    case True
    with a(7) b(7) dot show ?thesis by simp
  next
    case False
    with r2 dot have r3: "fp @ post = fp' @ post'" by simp
    have "takeWhile is_digit (fp @ post) = fp"
      using takeWhile_dropWhile_split [OF a(5) a(8)] by simp
    moreover have "takeWhile is_digit (fp' @ post') = fp'"
      using takeWhile_dropWhile_split [OF b(5) b(8)] by simp
    ultimately show ?thesis using r3 by simp
  qed
  from ip dot fp show ?thesis by simp
qed

text \<open>
  C3. The rating is \<^verbatim>\<open>None\<close> when the rating selector does not match or the text of
  the matched element has no digit. Otherwise the stripped text has a first decimal number,
  only one, and the rating is its value. \<open>8.5/10\<close> gives 8.5 and \<open>9\<close> gives 9. A rating that is not
  \<^verbatim>\<open>None\<close> is never negative. For a stub with a title the value is what the record
  holds under \<open>rating\<close>.
\<close>

theorem rating_first_decimal_number:
  "(select_one soup rating_selector = None \<longrightarrow> extract_rating soup = Inr PNone)
   \<and> (\<forall>e. select_one soup rating_selector = Some e \<longrightarrow>
         ((\<forall>c\<in>set (ntext e). \<not> is_digit c) \<longrightarrow> extract_rating soup = Inr PNone)
       \<and> ((\<exists>c\<in>set (ntext e). is_digit c) \<longrightarrow>
            (\<exists>ip dot fp. first_decimal (strip (ntext e)) ip dot fp)
          \<and> (\<forall>ip dot fp. first_decimal (strip (ntext e)) ip dot fp \<longrightarrow>
                extract_rating soup = Inr (PFloat (decimal_value ip fp)))))
   \<and> rating_of_text ''8.5/10'' = Inr (PFloat (17 / 2))
   \<and> rating_of_text ''9'' = Inr (PFloat 9)
   \<and> (\<forall>r. extract_rating soup = Inr (PFloat r) \<longrightarrow> 0 \<le> r)
   \<and> (\<forall>crawler url basic t.
         crawler None url = Some soup \<and> dict_get basic ''title'' = Some t \<longrightarrow>
         (\<exists>v. extract_rating soup = Inr v
            \<and> dict_get (snd (extract_manga_details url basic crawler)) ''rating'' = Some v))"
proof (intro conjI allI impI)
  assume "select_one soup rating_selector = None"
  then show "extract_rating soup = Inr PNone" by (simp add: extract_rating_def)
next
  fix e assume "select_one soup rating_selector = Some e" "\<forall>c\<in>set (ntext e). \<not> is_digit c"
  then show "extract_rating soup = Inr PNone"
    by (simp add: extract_rating_def rating_of_text_no_digit)
next
  fix e assume e: "select_one soup rating_selector = Some e" and d: "\<exists>c\<in>set (ntext e). is_digit c"
  from rating_of_text_digit [OF d] show "\<exists>ip dot fp. first_decimal (strip (ntext e)) ip dot fp"
    by blast
next
  fix e ip dot fp
  assume e: "select_one soup rating_selector = Some e" and d: "\<exists>c\<in>set (ntext e). is_digit c"
     and f: "first_decimal (strip (ntext e)) ip dot fp"
  from rating_of_text_digit [OF d] obtain ip' dot' fp' where
    g: "first_decimal (strip (ntext e)) ip' dot' fp'"
       "rating_of_text (ntext e) = Inr (PFloat (decimal_value ip' fp'))"
    by blast
  from first_decimal_unique [OF f g(1)] g(2) e
  show "extract_rating soup = Inr (PFloat (decimal_value ip fp))"
    by (simp add: extract_rating_def)
next
  show "rating_of_text ''8.5/10'' = Inr (PFloat (17 / 2))" by (simp add: rating_eval)
next
  show "rating_of_text ''9'' = Inr (PFloat 9)" by (simp add: rating_eval)
next
  fix r assume "extract_rating soup = Inr (PFloat r)"
  then show "0 \<le> r" by (rule extract_rating_nonneg)
next
  fix crawler :: crawler and url basic t
  assume a: "crawler None url = Some soup \<and> dict_get basic ''title'' = Some t"
  obtain v where v: "extract_rating soup = Inr v" using extract_rating_total by blast
  from a have "dict_get (snd (extract_manga_details url basic crawler)) ''rating'' = Some v"
    using extract_manga_details_rating [of crawler url soup basic t v] v by blast
  with v show "\<exists>v. extract_rating soup = Inr v
            \<and> dict_get (snd (extract_manga_details url basic crawler)) ''rating'' = Some v"
    by blast
qed

theorem rating_first_decimal_number_witness:
  "detail_crawler None (PStr ''https://mangareader.to/alpha'') = Some example_detail_page
   \<and> dict_get example_stub ''title'' = Some (PStr ''Alpha'')
   \<and> extract_rating example_detail_page = Inr (PFloat (17 / 2))
   \<and> dict_get (snd (extract_manga_details (PStr ''https://mangareader.to/alpha'')
                      example_stub detail_crawler)) ''rating'' = Some (PFloat (17 / 2))"
proof -
  have c: "detail_crawler None (PStr ''https://mangareader.to/alpha'') = Some example_detail_page"
    by (simp add: detail_crawler_def)
  have t: "dict_get example_stub ''title'' = Some (PStr ''Alpha'')"
    by (simp add: example_stub_def dict_get_def)
  have r: "extract_rating example_detail_page = Inr (PFloat (17 / 2))"
    by (simp add: extract_rating_def example_detail_page_def select_one_def select_def rating_eval)
  from rating_first_decimal_number [of example_detail_page] c t
  have "\<exists>v. extract_rating example_detail_page = Inr v
          \<and> dict_get (snd (extract_manga_details (PStr ''https://mangareader.to/alpha'')
                             example_stub detail_crawler)) ''rating'' = Some v"
    by blast
  with c t r show ?thesis by auto
qed

theorem genres_first_matching_chain_witness:
  "detail_crawler None (PStr ''https://mangareader.to/alpha'') = Some example_detail_page
   \<and> dict_get (snd (extract_manga_details (PStr ''https://mangareader.to/alpha'')
                      example_stub detail_crawler)) ''genres''
       = Some (PList [PStr ''Action'', PStr ''Drama''])
   \<and> bare_crawler None (PStr ''https://mangareader.to/alpha'') = Some (Node [] [] [])
   \<and> dict_get (snd (extract_manga_details (PStr ''https://mangareader.to/alpha'')
                      example_stub bare_crawler)) ''genres'' = Some (PList [])
   \<and> Print (NoGenresFound (PStr ''Alpha''))
       \<in> set (fst (extract_manga_details (PStr ''https://mangareader.to/alpha'')
                      example_stub bare_crawler))"
proof -
  have c: "detail_crawler None (PStr ''https://mangareader.to/alpha'') = Some example_detail_page"
    by (simp add: detail_crawler_def)
  have b: "bare_crawler None (PStr ''https://mangareader.to/alpha'') = Some (Node [] [] [])"
    by (simp add: bare_crawler_def)
  have t: "dict_get example_stub ''title'' = Some (PStr ''Alpha'')"
    by (simp add: example_stub_def dict_get_def)
  have f: "texts_of (first_match example_detail_page genre_selectors)
             = PList [PStr ''Action'', PStr ''Drama'']"
    by (simp add: first_match_def genre_selectors_def broader_selectors_def select_def
        example_detail_page_def rating_selector_def texts_of_def strip_def py_isspace_def)
  have n: "\<forall>sel\<in>set genre_selectors. select (Node [] [] []) sel = []"
    by (simp add: select_def)
  from genres_first_matching_chain [where crawler = detail_crawler
      and url = "PStr ''https://mangareader.to/alpha''" and soup = example_detail_page
      and basic = example_stub, OF c] f
  have 1: "dict_get (snd (extract_manga_details (PStr ''https://mangareader.to/alpha'')
                      example_stub detail_crawler)) ''genres''
       = Some (PList [PStr ''Action'', PStr ''Drama''])"
    by simp
  from genres_first_matching_chain [where crawler = bare_crawler
      and url = "PStr ''https://mangareader.to/alpha''" and soup = "Node [] [] []"
      and basic = example_stub, OF b] n t
  have 2: "dict_get (snd (extract_manga_details (PStr ''https://mangareader.to/alpha'')
                      example_stub bare_crawler)) ''genres'' = Some (PList [])
   \<and> Print (NoGenresFound (PStr ''Alpha''))
       \<in> set (fst (extract_manga_details (PStr ''https://mangareader.to/alpha'')
                      example_stub bare_crawler))"
    by blast
  from c b 1 2 show ?thesis by blast
qed

lemma process_item_url:
  assumes "dict_get m ''url'' = Some url"
  shows "process_item crawler n i (PDict m) =
     (fst (extract_manga_details url m crawler) @ (if int i < int n - 1 then [Sleep 2 4] else []),
      Inr (snd (extract_manga_details url m crawler)))"
  using assms by (simp add: process_item_def split: prod.splits)

text \<open>
  C2, as the code has it. When the fetch or the parser raises, \<open>extract_manga_details\<close>
  raises nothing: it prints the error and returns the stub with the empty list stored
  under \<open>genres\<close>. No other key is added or changed, so the record has no synopsis,
  author, rating or status. The loop of \<open>main\<close> appends this record and goes on with
  the remaining stubs.
\<close>

theorem details_failure_returns_stub_with_empty_genres:
  assumes "crawler None url = None"
  shows "snd (extract_manga_details url basic crawler) = dict_set basic ''genres'' (PList [])
       \<and> dict_get (snd (extract_manga_details url basic crawler)) ''genres'' = Some (PList [])
       \<and> (\<forall>k. k \<noteq> ''genres'' \<longrightarrow>
             dict_get (snd (extract_manga_details url basic crawler)) k = dict_get basic k)
       \<and> Print (ErrorExtractingDetails url) \<in> set (fst (extract_manga_details url basic crawler))
       \<and> (dict_get basic ''url'' = Some url \<longrightarrow>
            snd (process_item crawler n i (PDict basic)) = Inr (dict_set basic ''genres'' (PList []))
          \<and> (\<forall>rest ev page_manga_data.
                process_items crawler n (Suc i) rest = (ev, Inr page_manga_data) \<longrightarrow>
                snd (process_items crawler n i (PDict basic # rest))
                  = Inr (dict_set basic ''genres'' (PList []) # page_manga_data)))"
proof -
  have r: "snd (extract_manga_details url basic crawler) = dict_set basic ''genres'' (PList [])"
    using assms by (simp add: extract_manga_details_failed)
  have l: "Print (ErrorExtractingDetails url) \<in> set (fst (extract_manga_details url basic crawler))"
    using assms by (simp add: extract_manga_details_failed)
  have p: "dict_get basic ''url'' = Some url \<Longrightarrow>
      process_item crawler n i (PDict basic)
        = (fst (extract_manga_details url basic crawler)
             @ (if int i < int n - 1 then [Sleep 2 4] else []),
           Inr (dict_set basic ''genres'' (PList [])))"
    by (simp add: process_item_url r)
  show ?thesis
    using r l p by (auto simp: dict_get_set)
qed

theorem details_failure_returns_stub_with_empty_genres_witness:
  "example_crawler None (PStr ''https://mangareader.to/alpha'') = None
   \<and> snd (extract_manga_details (PStr ''https://mangareader.to/alpha'') example_stub example_crawler)
       = [(''title'', PStr ''Alpha''), (''url'', PStr ''https://mangareader.to/alpha''),
          (''cover_url'', PNone), (''genres'', PList [])]"
proof -
  have c: "example_crawler None (PStr ''https://mangareader.to/alpha'') = None"
    by (simp add: example_crawler_def)
  from details_failure_returns_stub_with_empty_genres [where crawler = example_crawler
      and url = "PStr ''https://mangareader.to/alpha''" and basic = example_stub, OF c] c
  show ?thesis by (simp add: example_stub_def dict_set_def)
qed

text \<open>
  C2 as stated fails: for a stub whose detail fetch raises, the returned record has no
  \<open>synopsis\<close>, \<open>author\<close>, \<open>rating\<close> or \<open>status\<close> key at all.
\<close>

theorem details_failure_sets_no_defaults:
  "example_crawler None (PStr ''https://mangareader.to/alpha'') = None
   \<and> dict_get (snd (extract_manga_details (PStr ''https://mangareader.to/alpha'')
                      example_stub example_crawler)) ''synopsis'' = None
   \<and> dict_get (snd (extract_manga_details (PStr ''https://mangareader.to/alpha'')
                      example_stub example_crawler)) ''author'' = None
   \<and> dict_get (snd (extract_manga_details (PStr ''https://mangareader.to/alpha'')
                      example_stub example_crawler)) ''rating'' = None
   \<and> dict_get (snd (extract_manga_details (PStr ''https://mangareader.to/alpha'')
                      example_stub example_crawler)) ''status'' = None"
  by (simp add: extract_manga_details_def example_crawler_def details_failed_def
      example_stub_def dict_set_def dict_get_def)

section \<open>Properties of the run\<close>

lemma intersperse_Cons:
  "intersperse sep (x # xs) = x # (if xs = [] then [] else sep # intersperse sep xs)"
  by (cases xs) simp_all

lemma intercalate_Cons:
  "intercalate sep (xs # rest) = xs @ (if rest = [] then [] else sep @ intercalate sep rest)"
  by (cases rest) simp_all

lemma timing_details_body: "filter timing (fst (details_body soup basic)) = []"
proof -
  obtain v where v: "extract_rating soup = Inr v" using extract_rating_total by blast
  show ?thesis by (simp add: details_body_eq [OF v] Let_def)
qed

lemma timing_extract_manga_details:
  "filter timing (fst (extract_manga_details url basic crawler)) = [FetchDetail url]"
proof (cases "crawler None url")
  case None
  then show ?thesis by (simp add: extract_manga_details_failed)
next
  case (Some soup)
  obtain ev r where b: "details_body soup basic = (ev, r)"
    by (cases "details_body soup basic")
  with timing_details_body [of soup basic] have "filter timing ev = []" by simp
  with Some b show ?thesis
    by (cases r) (simp_all add: extract_manga_details_def details_failed_def)
qed

lemma timing_extract_manga_list:
  "filter timing (fst (extract_manga_list url crawler)) = [FetchList url]"
  by (simp add: extract_manga_list_def Let_def split: option.splits)

lemma timing_save_to_json: "filter timing (fst (save_to_json env data filename fs)) = []"
  by (simp add: save_to_json_def split: option.splits prod.splits bool.splits)

lemma process_items_timing:
  assumes "stub_items items" "n = i + length items"
  shows "\<exists>ev r. process_items crawler n i items = (ev, Inr r)
           \<and> filter timing ev = intersperse (Sleep 2 4) (map FetchDetail (urls_of items))"
  using assms
proof (induction items arbitrary: i)
  case Nil
  show ?case by simp
next
  case (Cons item rest)
  from Cons.prems(1) obtain m u where m: "item = PDict m" "dict_get m ''url'' = Some u"
    by (auto simp: stub_items_def)
  have rest: "stub_items rest" using Cons.prems(1) by (simp add: stub_items_def)
  have n: "n = Suc i + length rest" using Cons.prems(2) by simp
  from Cons.IH [OF rest n] obtain ev r where
    ih: "process_items crawler n (Suc i) rest = (ev, Inr r)"
        "filter timing ev = intersperse (Sleep 2 4) (map FetchDetail (urls_of rest))"
    by blast
  have last: "int i < int n - 1 \<longleftrightarrow> rest \<noteq> []" using n by auto
  have u_rest: "urls_of rest = [] \<longleftrightarrow> rest = []"
    using rest by (cases rest) (auto simp: stub_items_def)
  have "process_items crawler n i (item # rest) =
          (fst (extract_manga_details u m crawler)
             @ (if rest \<noteq> [] then [Sleep 2 4] else []) @ ev,
           Inr (snd (extract_manga_details u m crawler) # r))"
    using m ih(1) last by (simp add: process_item_url)
  moreover have "filter timing (fst (extract_manga_details u m crawler)
             @ (if rest \<noteq> [] then [Sleep 2 4] else []) @ ev)
        = intersperse (Sleep 2 4) (map FetchDetail (urls_of (item # rest)))"
    using m ih(2) u_rest
    by (simp add: timing_extract_manga_details intersperse_Cons)
  ultimately show ?case by simp
qed

lemma stubs_of_have_url:
  "item \<in> set (stubs_of els) \<Longrightarrow> \<exists>u. dict_get item ''url'' = Some u"
  using stubs_of_mem [of item els]
  by (auto simp: stub_of_def dict_get_def split: option.splits)

lemma filter_items_subset: "filter_items xs = Inr ys \<Longrightarrow> set ys \<subseteq> set xs"
  by (induction xs arbitrary: ys) (auto split: sum.splits if_splits)

lemma page_items_stub_items:
  assumes "page_items crawler page = Inr items"
  shows "stub_items items"
proof -
  let ?stubs = "snd (extract_manga_list (page_url page) crawler)"
  from assms have f: "filter_items (map PDict ?stubs) = Inr items"
    by (auto simp: page_items_def split: sum.splits pyval.splits)
  have "\<forall>s\<in>set ?stubs. \<exists>u. dict_get s ''url'' = Some u"
    by (auto simp: snd_extract_manga_list stubs_of_have_url split: option.splits)
  with filter_items_subset [OF f] show ?thesis
    by (auto simp: stub_items_def)
qed

lemma process_page_timing:
  assumes "page_items crawler page = Inr items"
  shows "\<exists>ev fs' r. process_page env crawler page fs = (ev, fs', Inr r)
           \<and> filter timing ev
               = page_requests crawler page @ (if page < MAX_PAGES then [Sleep 3 6] else [])"
proof -
  obtain ev1 stubs where x: "extract_manga_list (page_url page) crawler = (ev1, stubs)"
    by (cases "extract_manga_list (page_url page) crawler")
  have t1: "filter timing ev1 = [FetchList (page_url page)]"
    using timing_extract_manga_list [of "page_url page" crawler] x by simp
  from assms x have f: "filter_navigation_links (PList (map PDict stubs)) = Inr (PList items)"
    by (auto simp: page_items_def split: sum.splits pyval.splits)
  from process_items_timing [OF page_items_stub_items [OF assms], of "length items" 0 crawler]
  obtain ev2 r where
    p: "process_items crawler (length items) 0 items = (ev2, Inr r)"
       "filter timing ev2 = intersperse (Sleep 2 4) (map FetchDetail (urls_of items))"
    by auto
  obtain ev3 fs' v where
    s: "save_to_json env r (page_output_file page) fs = (ev3, fs', v)"
    by (cases "save_to_json env r (page_output_file page) fs")
  have t3: "filter timing ev3 = []"
    using timing_save_to_json [of env r "page_output_file page" fs] s by simp
  have "process_page env crawler page fs =
          (Print (ProcessingPage page) # ev1
             @ Print (ProcessingDetails page (length items)) # ev2 @ ev3
             @ (if page < MAX_PAGES then [Print WaitingBeforeNextPage, Sleep 3 6] else []),
           fs', Inr r)"
    using x f p(1) s by (simp add: process_page_def)
  moreover have "filter timing (Print (ProcessingPage page) # ev1
             @ Print (ProcessingDetails page (length items)) # ev2 @ ev3
             @ (if page < MAX_PAGES then [Print WaitingBeforeNextPage, Sleep 3 6] else []))
      = page_requests crawler page @ (if page < MAX_PAGES then [Sleep 3 6] else [])"
    using t1 p(2) t3 assms by (simp add: page_requests_def detail_urls_def)
  ultimately show ?thesis by simp
qed

lemma main_pages_timing:
  assumes "\<forall>page\<in>set pages. \<exists>items. page_items crawler page = Inr items"
  shows "\<exists>ev fs' r. main_pages env crawler pages fs manga_list = (ev, fs', Inr r)
           \<and> filter timing ev
               = concat (map (\<lambda>page. page_requests crawler page
                                @ (if page < MAX_PAGES then [Sleep 3 6] else [])) pages)"
  using assms
proof (induction pages arbitrary: fs manga_list)
  case Nil
  show ?case by simp
next
  case (Cons page pages)
  from Cons.prems obtain items where "page_items crawler page = Inr items" by auto
  from process_page_timing [OF this, of env fs] obtain ev fs1 r where
    p: "process_page env crawler page fs = (ev, fs1, Inr r)"
       "filter timing ev
          = page_requests crawler page @ (if page < MAX_PAGES then [Sleep 3 6] else [])"
    by blast
  from Cons.prems have "\<forall>page\<in>set pages. \<exists>items. page_items crawler page = Inr items"
    by simp
  from Cons.IH [OF this, of fs1 "manga_list @ r"] obtain ev' fs2 r' where
    ih: "main_pages env crawler pages fs1 (manga_list @ r) = (ev', fs2, Inr r')"
        "filter timing ev'
           = concat (map (\<lambda>page. page_requests crawler page
                            @ (if page < MAX_PAGES then [Sleep 3 6] else [])) pages)"
    by blast
  from p ih show ?case by simp
qed

lemma main_run_events:
  "filter timing (fst (main_run env crawler fs))
     = filter timing (fst (main_pages env crawler [595..<MAX_PAGES + 1] fs []))"
proof -
  obtain ev fs' r where m: "main_pages env crawler [595..<MAX_PAGES + 1] fs [] = (ev, fs', r)"
    by (cases "main_pages env crawler [595..<MAX_PAGES + 1] fs []")
  show ?thesis
  proof (cases r)
    case (Inl e)
    with m show ?thesis by (simp add: main_run_def)
  next
    case (Inr manga_list)
    show ?thesis
    proof (cases "dedupe manga_list")
      case (Inl e)
      with m Inr show ?thesis by (simp add: main_run_def)
    next
      case u: (Inr unique)
      obtain ev2 fs2 v where s: "save_to_json env unique OUTPUT_FILE fs' = (ev2, fs2, v)"
        by (cases "save_to_json env unique OUTPUT_FILE fs'")
      have "filter timing ev2 = []"
        using timing_save_to_json [of env unique OUTPUT_FILE fs'] s by simp
      with m Inr u s show ?thesis by (simp add: main_run_def)
    qed
  qed
qed

lemma concat_upto_intercalate:
  "a \<le> b \<Longrightarrow>
   concat (map (\<lambda>p. f p @ (if p < b then sep else [])) [a..<b + 1])
     = intercalate sep (map f [a..<b + 1])"
proof (induction "b - a" arbitrary: a)
  case 0
  then have "a = b" by simp
  then show ?case by simp
next
  case (Suc d)
  then have lt: "a < b" and d: "d = b - Suc a" and le: "Suc a \<le> b" by auto
  have u: "[a..<b + 1] = a # [Suc a..<b + 1]"
    using lt by (simp add: upt_conv_Cons)
  have ne: "[Suc a..<b + 1] \<noteq> []" using le by simp
  from Suc.hyps(1) [OF d le] show ?case
    unfolding u using lt ne by (simp add: intercalate_Cons)
qed

lemma main_run_timing:
  assumes "\<forall>page\<in>set [595..<MAX_PAGES + 1]. \<exists>items. page_items crawler page = Inr items"
  shows "requests_and_delays (fst (main_run env crawler fs))
           = intercalate [Sleep 3 6] (map (page_requests crawler) [595..<MAX_PAGES + 1])"
proof -
  from main_pages_timing [OF assms, of env fs "[]"] obtain ev fs' r where
    m: "main_pages env crawler [595..<MAX_PAGES + 1] fs [] = (ev, fs', Inr r)"
       "filter timing ev
          = concat (map (\<lambda>page. page_requests crawler page
                           @ (if page < MAX_PAGES then [Sleep 3 6] else []))
                     [595..<MAX_PAGES + 1])"
    by blast
  have "595 \<le> MAX_PAGES" by (simp add: MAX_PAGES_def)
  from concat_upto_intercalate [OF this, of "page_requests crawler" "[Sleep 3 6]"] m
  show ?thesis
    by (simp add: requests_and_delays_def main_run_events)
qed

text \<open>
  C8, as the code has it. In a run that no exception ends (every page passes the filter),
  the requests and delays are: the pages in order with a per-page delay (drawn from 3 to
  6 seconds) between every two consecutive pages and none after the last; within a page
  the list fetch, then the detail fetches with a per-item delay (drawn from 2 to 4
  seconds) between every two consecutive ones. So no per-item delay precedes the first
  detail fetch of any page, and none follows the last one of a page.
\<close>

theorem delays_between_items_and_between_pages:
  assumes "\<forall>page\<in>set [595..<MAX_PAGES + 1]. \<exists>items. page_items crawler page = Inr items"
  shows "requests_and_delays (fst (main_run env crawler fs))
           = intercalate [Sleep 3 6]
               (map (\<lambda>page. FetchList (page_url page)
                       # intersperse (Sleep 2 4) (map FetchDetail (detail_urls crawler page)))
                  [595..<MAX_PAGES + 1])"
  using main_run_timing [OF assms, of env fs]
  by (simp add: page_requests_def [abs_def])

lemmas example_simps3 =
  example_crawler_def example_list_page_def example_item_def manga_elements_def select_def
  select_one_def find_tag_def or_else_def or_list_def link_element_def
  title_element_def title_of_def stub_of_def manga_url_of_def cover_url_of_def attr_get_def
  startswith_def strip_def py_isspace_def BASE_URL_def opt_str_def or_str_def

lemma example_page_items:
  "page_items example_crawler page =
     Inr [PDict [(''title'', PStr ''Alpha''), (''url'', PStr ''https://mangareader.to/alpha''),
                 (''cover_url'', PNone)],
          PDict [(''title'', PStr ''Gamma''), (''url'', PStr ''https://x.test/gamma''),
                 (''cover_url'', PNone)]]"
  by (simp add: page_items_def snd_extract_manga_list example_simps3 dict_get_def)

lemma example_page_requests:
  "page_requests example_crawler page =
     [FetchList (page_url page), FetchDetail (PStr ''https://mangareader.to/alpha''),
      Sleep 2 4, FetchDetail (PStr ''https://x.test/gamma'')]"
  by (simp add: page_requests_def detail_urls_def example_page_items dict_get_def)

lemma upt_first_two: "[595..<MAX_PAGES + 1] = 595 # 596 # [597..<MAX_PAGES + 1]"
  by (simp add: MAX_PAGES_def upt_conv_Cons)

text \<open>
  C8 as stated fails: in a run over pages with two items each, the detail fetch of the
  first item of page 596 comes directly after the list fetch of that page. No per-item
  delay is issued before it, although it is not the first item of the first page.
\<close>

theorem first_item_of_later_page_without_item_delay:
  "take 7 (requests_and_delays (fst (main_run example_env example_crawler [])))
     = [FetchList ''https://mangareader.to/az-list?page=595'',
        FetchDetail (PStr ''https://mangareader.to/alpha''),
        Sleep 2 4,
        FetchDetail (PStr ''https://x.test/gamma''),
        Sleep 3 6,
        FetchList ''https://mangareader.to/az-list?page=596'',
        FetchDetail (PStr ''https://mangareader.to/alpha'')]"
proof -
  have ok: "\<forall>page\<in>set [595..<MAX_PAGES + 1]. \<exists>items. page_items example_crawler page = Inr items"
    by (simp add: example_page_items)
  have u595: "page_url 595 = ''https://mangareader.to/az-list?page=595''"
    by (simp add: page_url_def BASE_URL_def str_of_nat.simps digit_char_def)
  have u596: "page_url 596 = ''https://mangareader.to/az-list?page=596''"
    by (simp add: page_url_def BASE_URL_def str_of_nat.simps digit_char_def)
  show ?thesis
    unfolding main_run_timing [OF ok] upt_first_two
    by (simp add: intercalate_Cons example_page_requests u595 u596)
qed

theorem delays_between_items_and_between_pages_witness:
  "page_items example_crawler MAX_PAGES
     = Inr [PDict [(''title'', PStr ''Alpha''), (''url'', PStr ''https://mangareader.to/alpha''),
                   (''cover_url'', PNone)],
            PDict [(''title'', PStr ''Gamma''), (''url'', PStr ''https://x.test/gamma''),
                   (''cover_url'', PNone)]]
   \<and> requests_and_delays (fst (main_run example_env example_crawler []))
       = intercalate [Sleep 3 6]
           (map (\<lambda>page. [FetchList (page_url page),
                          FetchDetail (PStr ''https://mangareader.to/alpha''), Sleep 2 4,
                          FetchDetail (PStr ''https://x.test/gamma'')])
              [595..<MAX_PAGES + 1])"
proof -
  have ok: "\<forall>page\<in>set [595..<MAX_PAGES + 1]. \<exists>items. page_items example_crawler page = Inr items"
    by (simp add: example_page_items)
  have d: "detail_urls example_crawler = (\<lambda>page. [PStr ''https://mangareader.to/alpha'',
                                                   PStr ''https://x.test/gamma''])"
    by (rule ext) (simp add: detail_urls_def example_page_items dict_get_def)
  from delays_between_items_and_between_pages
         [where crawler = example_crawler and env = example_env and fs = "[]", OF ok]
  show ?thesis by (simp add: d example_page_items)
qed

text \<open>
  C9, as the code has it. \<open>save_to_json\<close> raises nothing and returns \<^verbatim>\<open>None\<close> on every
  path; it prints either the success line or the error line. When the directory is
  created, the file is opened, the records are encoded with indent 2 and without ASCII
  escaping, and the text is written, it prints the success line and the file system is
  the one after that write. When any of these four steps fails it prints the error line,
  and the file system is the one the failing step left. What \<open>main\<close> keeps of a page in
  memory does not depend on the file system or on whether the write went through.
\<close>

theorem save_to_json_returns_none:
  "snd (snd (save_to_json env data filename fs)) = PNone
   \<and> (fst (save_to_json env data filename fs) = [Print (SavedItems (length data) filename)]
      \<or> fst (save_to_json env data filename fs) = [Print (ErrorSaving filename)])
   \<and> (\<forall>fs1 fs2 text fs3.
         makedirs env (parent_dir env filename) fs = Some fs1
         \<and> open_w env filename fs1 = Some fs2
         \<and> json_dumps env 2 False (PList (map PDict data)) = Some text
         \<and> write_text env filename text fs2 = (fs3, True) \<longrightarrow>
         save_to_json env data filename fs
           = ([Print (SavedItems (length data) filename)], fs3, PNone))
   \<and> snd (snd (process_page env crawler page fs)) = snd (snd (process_page env' crawler page fs'))
   \<and> (makedirs env (parent_dir env filename) fs = None \<longrightarrow>
         save_to_json env data filename fs = ([Print (ErrorSaving filename)], fs, PNone))
   \<and> (\<forall>fs1.
         makedirs env (parent_dir env filename) fs = Some fs1
         \<and> open_w env filename fs1 = None \<longrightarrow>
         save_to_json env data filename fs = ([Print (ErrorSaving filename)], fs1, PNone))
   \<and> (\<forall>fs1 fs2.
         makedirs env (parent_dir env filename) fs = Some fs1
         \<and> open_w env filename fs1 = Some fs2
         \<and> json_dumps env 2 False (PList (map PDict data)) = None \<longrightarrow>
         save_to_json env data filename fs = ([Print (ErrorSaving filename)], fs2, PNone))
   \<and> (\<forall>fs1 fs2 text fs3.
         makedirs env (parent_dir env filename) fs = Some fs1
         \<and> open_w env filename fs1 = Some fs2
         \<and> json_dumps env 2 False (PList (map PDict data)) = Some text
         \<and> write_text env filename text fs2 = (fs3, False) \<longrightarrow>
         save_to_json env data filename fs = ([Print (ErrorSaving filename)], fs3, PNone))
   \<and> ((\<forall>fs1 fs2 text fs3.
          \<not> (makedirs env (parent_dir env filename) fs = Some fs1
             \<and> open_w env filename fs1 = Some fs2
             \<and> json_dumps env 2 False (PList (map PDict data)) = Some text
             \<and> write_text env filename text fs2 = (fs3, True))) \<longrightarrow>
        fst (save_to_json env data filename fs) = [Print (ErrorSaving filename)])
   \<and> (fst (save_to_json env data filename fs) = [Print (SavedItems (length data) filename)] \<longrightarrow>
        (\<exists>fs1 fs2 text fs3.
           makedirs env (parent_dir env filename) fs = Some fs1
           \<and> open_w env filename fs1 = Some fs2
           \<and> json_dumps env 2 False (PList (map PDict data)) = Some text
           \<and> write_text env filename text fs2 = (fs3, True)))"
proof -
  have none: "snd (snd (save_to_json env data filename fs)) = PNone"
    by (simp add: save_to_json_def split: option.splits prod.splits bool.splits)
  have line: "fst (save_to_json env data filename fs) = [Print (SavedItems (length data) filename)]
      \<or> fst (save_to_json env data filename fs) = [Print (ErrorSaving filename)]"
    by (simp add: save_to_json_def split: option.splits prod.splits bool.splits)
  have mem: "snd (snd (process_page env crawler page fs))
               = snd (snd (process_page env' crawler page fs'))"
    by (simp add: process_page_def split: prod.splits sum.splits pyval.splits)
  have ok: "\<forall>fs1 fs2 text fs3.
         makedirs env (parent_dir env filename) fs = Some fs1
         \<and> open_w env filename fs1 = Some fs2
         \<and> json_dumps env 2 False (PList (map PDict data)) = Some text
         \<and> write_text env filename text fs2 = (fs3, True) \<longrightarrow>
         save_to_json env data filename fs
           = ([Print (SavedItems (length data) filename)], fs3, PNone)"
    by (simp add: save_to_json_def)
  have f1: "makedirs env (parent_dir env filename) fs = None \<longrightarrow>
         save_to_json env data filename fs = ([Print (ErrorSaving filename)], fs, PNone)"
    by (simp add: save_to_json_def)
  have f2: "\<forall>fs1.
         makedirs env (parent_dir env filename) fs = Some fs1
         \<and> open_w env filename fs1 = None \<longrightarrow>
         save_to_json env data filename fs = ([Print (ErrorSaving filename)], fs1, PNone)"
    by (simp add: save_to_json_def)
  have f3: "\<forall>fs1 fs2.
         makedirs env (parent_dir env filename) fs = Some fs1
         \<and> open_w env filename fs1 = Some fs2
         \<and> json_dumps env 2 False (PList (map PDict data)) = None \<longrightarrow>
         save_to_json env data filename fs = ([Print (ErrorSaving filename)], fs2, PNone)"
    by (simp add: save_to_json_def)
  have f4: "\<forall>fs1 fs2 text fs3.
         makedirs env (parent_dir env filename) fs = Some fs1
         \<and> open_w env filename fs1 = Some fs2
         \<and> json_dumps env 2 False (PList (map PDict data)) = Some text
         \<and> write_text env filename text fs2 = (fs3, False) \<longrightarrow>
         save_to_json env data filename fs = ([Print (ErrorSaving filename)], fs3, PNone)"
    by (simp add: save_to_json_def)
  have any: "(\<forall>fs1 fs2 text fs3.
          \<not> (makedirs env (parent_dir env filename) fs = Some fs1
             \<and> open_w env filename fs1 = Some fs2
             \<and> json_dumps env 2 False (PList (map PDict data)) = Some text
             \<and> write_text env filename text fs2 = (fs3, True))) \<longrightarrow>
        fst (save_to_json env data filename fs) = [Print (ErrorSaving filename)]"
  proof
    assume no: "\<forall>fs1 fs2 text fs3.
          \<not> (makedirs env (parent_dir env filename) fs = Some fs1
             \<and> open_w env filename fs1 = Some fs2
             \<and> json_dumps env 2 False (PList (map PDict data)) = Some text
             \<and> write_text env filename text fs2 = (fs3, True))"
    show "fst (save_to_json env data filename fs) = [Print (ErrorSaving filename)]"
    proof (cases "makedirs env (parent_dir env filename) fs")
      case None
      with f1 show ?thesis by simp
    next
      case m: (Some fs1)
      show ?thesis
      proof (cases "open_w env filename fs1")
        case None
        with m f2 show ?thesis by simp
      next
        case o: (Some fs2)
        show ?thesis
        proof (cases "json_dumps env 2 False (PList (map PDict data))")
          case None
          with m o f3 show ?thesis by simp
        next
          case j: (Some t)
          obtain fs3 b where w: "write_text env filename t fs2 = (fs3, b)"
            by (cases "write_text env filename t fs2")
          from no m o j w have "\<not> b" by (cases b) auto
          with m o j w f4 show ?thesis by simp
        qed
      qed
    qed
  qed
  have only: "fst (save_to_json env data filename fs)
                = [Print (SavedItems (length data) filename)] \<longrightarrow>
        (\<exists>fs1 fs2 text fs3.
           makedirs env (parent_dir env filename) fs = Some fs1
           \<and> open_w env filename fs1 = Some fs2
           \<and> json_dumps env 2 False (PList (map PDict data)) = Some text
           \<and> write_text env filename text fs2 = (fs3, True))"
  proof
    assume s: "fst (save_to_json env data filename fs)
                 = [Print (SavedItems (length data) filename)]"
    show "\<exists>fs1 fs2 text fs3.
           makedirs env (parent_dir env filename) fs = Some fs1
           \<and> open_w env filename fs1 = Some fs2
           \<and> json_dumps env 2 False (PList (map PDict data)) = Some text
           \<and> write_text env filename text fs2 = (fs3, True)"
    proof (rule ccontr)
      assume "\<not> (\<exists>fs1 fs2 text fs3.
           makedirs env (parent_dir env filename) fs = Some fs1
           \<and> open_w env filename fs1 = Some fs2
           \<and> json_dumps env 2 False (PList (map PDict data)) = Some text
           \<and> write_text env filename text fs2 = (fs3, True))"
      then have "\<forall>fs1 fs2 text fs3.
          \<not> (makedirs env (parent_dir env filename) fs = Some fs1
             \<and> open_w env filename fs1 = Some fs2
             \<and> json_dumps env 2 False (PList (map PDict data)) = Some text
             \<and> write_text env filename text fs2 = (fs3, True))"
        by blast
      with any have "fst (save_to_json env data filename fs) = [Print (ErrorSaving filename)]"
        by blast
      with s show False by simp
    qed
  qed
  from none line ok mem f1 f2 f3 f4 any only show ?thesis
    by (intro conjI)
qed

theorem save_to_json_returns_none_witness:
  "makedirs example_env (parent_dir example_env ''out/manga.json'') [] = Some []
   \<and> open_w example_env ''out/manga.json'' [] = Some [(''out/manga.json'', [])]
   \<and> save_to_json example_env [example_stub] ''out/manga.json'' []
       = ([Print (SavedItems 1 ''out/manga.json'')], [(''out/manga.json'', ''[...]'')], PNone)
   \<and> makedirs example_env (parent_dir example_env []) [] = Some []
   \<and> open_w example_env [] [] = None
   \<and> save_to_json example_env [example_stub] [] [] = ([Print (ErrorSaving [])], [], PNone)"
proof -
  have a: "makedirs example_env (parent_dir example_env ''out/manga.json'') [] = Some []"
    by (simp add: example_env_def)
  have b: "open_w example_env ''out/manga.json'' [] = Some [(''out/manga.json'', [])]"
    by (simp add: example_env_def)
  have c: "json_dumps example_env 2 False (PList (map PDict [example_stub])) = Some ''[...]''"
    by (simp add: example_env_def)
  have d: "write_text example_env ''out/manga.json'' ''[...]'' [(''out/manga.json'', [])]
             = ([(''out/manga.json'', ''[...]'')], True)"
    by (simp add: example_env_def)
  have a': "makedirs example_env (parent_dir example_env []) [] = Some []"
    by (simp add: example_env_def)
  have b': "open_w example_env [] [] = None"
    by (simp add: example_env_def)
  have good: "save_to_json example_env [example_stub] ''out/manga.json'' []
       = ([Print (SavedItems 1 ''out/manga.json'')], [(''out/manga.json'', ''[...]'')], PNone)"
    using save_to_json_returns_none
         [where env = example_env and data = "[example_stub]" and filename = "''out/manga.json''"
            and fs = "[]" and crawler = example_crawler and page = 595 and env' = example_env
            and fs' = "[]"]
       a b c d
    by simp
  have bad: "save_to_json example_env [example_stub] [] [] = ([Print (ErrorSaving [])], [], PNone)"
    using save_to_json_returns_none
         [where env = example_env and data = "[example_stub]" and filename = "[]"
            and fs = "[]" and crawler = example_crawler and page = 595 and env' = example_env
            and fs' = "[]"]
       a' b'
    by blast
  from a b good a' b' bad show ?thesis by (intro conjI)
qed

text \<open>
  C9 as stated fails: a write that goes through and a write that fails (the empty path
  cannot be opened) hand the same value, \<^verbatim>\<open>None\<close>, to the caller; only the printed line
  differs.
\<close>

theorem save_to_json_same_value_on_failure:
  "save_to_json example_env [] ''manga_data.json'' []
     = ([Print (SavedItems 0 ''manga_data.json'')], [(''manga_data.json'', ''[]'')], PNone)
   \<and> save_to_json example_env [] [] [] = ([Print (ErrorSaving [])], [], PNone)"
  by (simp add: save_to_json_def example_env_def)

end
